theory Spec2Isabelle
  imports Complex_Main "HOL-Library.Log_Nat"
begin

section \<open>JavaScript numbers\<close>

text \<open>
  Amounts and balances are JavaScript numbers: \<^verbatim>\<open>parseFloat(amount)\<close> in the
  handlers, \<^verbatim>\<open>balance: 0\<close> in \<^verbatim>\<open>dal.create\<close>, the BSON double that \<^verbatim>\<open>$inc\<close>
  adds to.  A number is a finite IEEE 754 binary64 value, given by the rational it
  denotes, or one of \<^verbatim>\<open>Infinity\<close>, \<^verbatim>\<open>-Infinity\<close>, \<^verbatim>\<open>NaN\<close>.  The two zeros
  are one value here: \<^verbatim>\<open><\<close>, \<^verbatim>\<open><=\<close> and \<^verbatim>\<open>+\<close> do not tell them apart.
\<close>

datatype number = Finite rat | Infinity | NegInfinity | NaN

text \<open>
  Rounding an exact result to binary64, to nearest with ties to the even
  significand.  \<open>exponent q\<close> is \<open>\<lfloor>log\<^sub>2 \<bar>q\<bar>\<rfloor>\<close>; the spacing of the doubles around
  \<open>q\<close> is \<open>2\<close> to the power \<open>exponent q - 52\<close>, and \<open>2\<close> to the power
  \<open>- 1074\<close> in the subnormal range; a result of magnitude \<open>2\<^sup>1\<^sup>0\<^sup>2\<^sup>4\<close> or more
  overflows to an infinity.
\<close>

definition exponent :: "rat \<Rightarrow> int" where
  "exponent q =
     (case quotient_of \<bar>q\<bar> of
        (p, d) \<Rightarrow>
          let k = bitlen p - bitlen d
          in if 2 powi k \<le> \<bar>q\<bar> then k else k - 1)"

definition ulp :: "rat \<Rightarrow> rat" where
  "ulp q = 2 powi (max (exponent q) (- 1022) - 52)"

definition round_half_even :: "rat \<Rightarrow> int" where
  "round_half_even q =
     (let f = \<lfloor>q\<rfloor>; r = q - of_int f in
      if r < 1 / 2 then f
      else if 1 / 2 < r then f + 1
      else if even f then f else f + 1)"

definition overflow_threshold :: rat where
  "overflow_threshold = 2 ^ 1024"

definition round_double :: "rat \<Rightarrow> number" where
  "round_double q =
     (if q = 0 then Finite 0
      else
        let r = of_int (round_half_even (q / ulp q)) * ulp q in
        if overflow_threshold \<le> r then Infinity
        else if r \<le> - overflow_threshold then NegInfinity
        else Finite r)"

text \<open>The rationals that are doubles: those that rounding leaves on the grid.\<close>

definition is_double :: "rat \<Rightarrow> bool" where
  "is_double q =
     (q = 0 \<or> (\<bar>q\<bar> < overflow_threshold \<and> of_int \<lfloor>q / ulp q\<rfloor> = q / ulp q))"

text \<open>
  The operators the source applies to numbers: \<^verbatim>\<open>+\<close> (also what \<^verbatim>\<open>$inc\<close> does),
  unary and binary \<^verbatim>\<open>-\<close>, \<^verbatim>\<open><\<close>, \<^verbatim>\<open><=\<close>, and \<^verbatim>\<open>isFinite\<close>.  Every comparison
  with \<^verbatim>\<open>NaN\<close> is false.
\<close>

fun js_add :: "number \<Rightarrow> number \<Rightarrow> number" where
  "js_add (Finite x) (Finite y) = round_double (x + y)"
| "js_add NaN y = NaN"
| "js_add x NaN = NaN"
| "js_add Infinity NegInfinity = NaN"
| "js_add NegInfinity Infinity = NaN"
| "js_add Infinity y = Infinity"
| "js_add x Infinity = Infinity"
| "js_add NegInfinity y = NegInfinity"
| "js_add x NegInfinity = NegInfinity"

fun js_neg :: "number \<Rightarrow> number" where
  "js_neg (Finite x) = Finite (- x)"
| "js_neg Infinity = NegInfinity"
| "js_neg NegInfinity = Infinity"
| "js_neg NaN = NaN"

fun js_sub :: "number \<Rightarrow> number \<Rightarrow> number" where
  "js_sub (Finite x) (Finite y) = round_double (x - y)"
| "js_sub NaN y = NaN"
| "js_sub x NaN = NaN"
| "js_sub Infinity Infinity = NaN"
| "js_sub NegInfinity NegInfinity = NaN"
| "js_sub Infinity y = Infinity"
| "js_sub x NegInfinity = Infinity"
| "js_sub NegInfinity y = NegInfinity"
| "js_sub x Infinity = NegInfinity"

fun js_less :: "number \<Rightarrow> number \<Rightarrow> bool" where
  "js_less (Finite x) (Finite y) = (x < y)"
| "js_less (Finite x) Infinity = True"
| "js_less NegInfinity (Finite y) = True"
| "js_less NegInfinity Infinity = True"
| "js_less x y = False"

fun js_le :: "number \<Rightarrow> number \<Rightarrow> bool" where
  "js_le (Finite x) (Finite y) = (x \<le> y)"
| "js_le (Finite x) Infinity = True"
| "js_le NegInfinity (Finite y) = True"
| "js_le NegInfinity Infinity = True"
| "js_le Infinity Infinity = True"
| "js_le NegInfinity NegInfinity = True"
| "js_le x y = False"

fun isFinite :: "number \<Rightarrow> bool" where
  "isFinite (Finite x) = True"
| "isFinite x = False"

section \<open>Documents, errors and the users collection\<close>

text \<open>
  A document of the \<^verbatim>\<open>users\<close> collection.  \<^verbatim>\<open>dal.create\<close> writes
  \<^verbatim>\<open>{ name, email, password, balance: 0 }\<close>; the schema of \<^verbatim>\<open>models/user.js\<close>
  adds \<^verbatim>\<open>accountType\<close> and \<^verbatim>\<open>accountNumber\<close>, which a document may lack
  (\<open>None\<close>).
\<close>

record user =
  name :: string
  email :: string
  password :: string
  balance :: number
  accountType :: "string option"
  accountNumber :: "string option"

text \<open>
  The collection is the list of its documents in insertion order.  Nothing in
  \<^verbatim>\<open>dal.js\<close> enforces uniqueness of \<^verbatim>\<open>email\<close>, so the list may hold several
  documents with one address.
\<close>

type_synonym collection = "user list"

text \<open>
  A JavaScript error object: \<^verbatim>\<open>name\<close>, \<^verbatim>\<open>message\<close>, the optional
  \<^verbatim>\<open>statusCode\<close> that the classes of \<^verbatim>\<open>errorMiddleware.js\<close> add, and
  \<^verbatim>\<open>stack\<close> (only its first line, the part that does not depend on the call site).
\<close>

record js_error =
  err_name :: string
  err_message :: string
  statusCode :: "nat option"
  stack :: string

definition Error_new :: "string \<Rightarrow> js_error" where
  "Error_new m =
     \<lparr>err_name = ''Error'', err_message = m, statusCode = None,
      stack = ''Error: '' @ m\<rparr>"

definition ValidationError :: "string \<Rightarrow> js_error" where
  "ValidationError m =
     \<lparr>err_name = ''ValidationError'', err_message = m, statusCode = Some 400,
      stack = ''ValidationError: '' @ m\<rparr>"

definition NotFoundError :: "string \<Rightarrow> js_error" where
  "NotFoundError m =
     \<lparr>err_name = ''NotFoundError'', err_message = m, statusCode = Some 404,
      stack = ''NotFoundError: '' @ m\<rparr>"

subsection \<open>The driver calls that dal.js makes on the collection\<close>

text \<open>
  \<^verbatim>\<open>collection.insertOne(doc)\<close> appends the document, \<^verbatim>\<open>find({email}).toArray()\<close>
  returns every match, \<^verbatim>\<open>findOne({email})\<close> the first match or \<^verbatim>\<open>null\<close>
  (\<open>None\<close>), and \<^verbatim>\<open>findOneAndUpdate({email}, upd, {returnDocument: 'after'})\<close>
  rewrites the first match and yields it as \<^verbatim>\<open>result.value\<close>, or \<^verbatim>\<open>null\<close>
  when nothing matches.
\<close>

definition insertOne :: "user \<Rightarrow> collection \<Rightarrow> user \<times> collection" where
  "insertOne doc c = (doc, c @ [doc])"

definition coll_find :: "string \<Rightarrow> collection \<Rightarrow> user list" where
  "coll_find em c = filter (\<lambda>u. email u = em) c"

definition coll_findOne :: "string \<Rightarrow> collection \<Rightarrow> user option" where
  "coll_findOne em c = List.find (\<lambda>u. email u = em) c"

fun findOneAndUpdate ::
  "string \<Rightarrow> (user \<Rightarrow> user) \<Rightarrow> collection \<Rightarrow> user option \<times> collection" where
  "findOneAndUpdate em upd [] = (None, [])"
| "findOneAndUpdate em upd (u # us) =
     (if email u = em then (Some (upd u), upd u # us)
      else (case findOneAndUpdate em upd us of (v, us') \<Rightarrow> (v, u # us')))"

text \<open>
  The two update documents of the source.  \<^verbatim>\<open>{ $set: newData }\<close> merges whatever
  fields the caller's object carries (\<open>None\<close>: the key is not in the object);
  \<^verbatim>\<open>{ $inc: { balance: amount } }\<close> adds to the balance.
\<close>

record newData =
  set_name :: "string option"
  set_email :: "string option"
  set_password :: "string option"
  set_balance :: "number option"
  set_accountType :: "string option"
  set_accountNumber :: "string option"

definition set_fields :: "newData \<Rightarrow> user \<Rightarrow> user" where
  "set_fields d u =
     \<lparr>name = (case set_name d of None \<Rightarrow> name u | Some v \<Rightarrow> v),
      email = (case set_email d of None \<Rightarrow> email u | Some v \<Rightarrow> v),
      password = (case set_password d of None \<Rightarrow> password u | Some v \<Rightarrow> v),
      balance = (case set_balance d of None \<Rightarrow> balance u | Some v \<Rightarrow> v),
      accountType =
        (case set_accountType d of None \<Rightarrow> accountType u | Some v \<Rightarrow> Some v),
      accountNumber =
        (case set_accountNumber d of None \<Rightarrow> accountNumber u | Some v \<Rightarrow> Some v)\<rparr>"

definition inc_balance :: "number \<Rightarrow> user \<Rightarrow> user" where
  "inc_balance amount u = u\<lparr>balance := js_add (balance u) amount\<rparr>"

section \<open>dal.js\<close>

text \<open>
  Every operation takes the collection and returns its outcome with the collection
  as it left it: \<open>Inl\<close> the error thrown, \<open>Inr\<close> the value returned, where \<open>None\<close>
  is JavaScript's \<^verbatim>\<open>null\<close>.  The \<^verbatim>\<open>catch\<close> blocks log and rethrow the same
  error, so they do not appear.
\<close>

type_synonym 'a outcome = "(js_error + 'a) \<times> collection"

definition create :: "string \<Rightarrow> string \<Rightarrow> string \<Rightarrow> collection \<Rightarrow> user option outcome" where
  "create n em p c =
     (let doc = \<lparr>name = n, email = em, password = p, balance = Finite 0,
                 accountType = None, accountNumber = None\<rparr> in
      case insertOne doc c of (r, c') \<Rightarrow> (Inr (Some r), c'))"

definition find_users :: "string \<Rightarrow> collection \<Rightarrow> user list outcome" where
  "find_users em c = (Inr (coll_find em c), c)"

definition findOne :: "string \<Rightarrow> collection \<Rightarrow> user option outcome" where
  "findOne em c =
     (case coll_findOne em c of
        None \<Rightarrow> (Inl (Error_new ''User not found.''), c)
      | Some u \<Rightarrow> (Inr (Some u), c))"

definition update :: "string \<Rightarrow> newData \<Rightarrow> collection \<Rightarrow> user option outcome" where
  "update em d c =
     (case findOneAndUpdate em (set_fields d) c of (v, c') \<Rightarrow> (Inr v, c'))"

definition deposit :: "string \<Rightarrow> number \<Rightarrow> collection \<Rightarrow> user option outcome" where
  "deposit em amount c =
     (case findOneAndUpdate em (inc_balance amount) c of
        (v, c') \<Rightarrow>
          if js_le amount (Finite 0)
          then (Inl (Error_new ''Amount must be positive.''), c')
          else if v = None then (Inl (Error_new ''User not found.''), c')
          else (Inr v, c'))"

definition withdraw :: "string \<Rightarrow> number \<Rightarrow> collection \<Rightarrow> user option outcome" where
  "withdraw em amount c =
     (let usr = coll_findOne em c in
      if js_le amount (Finite 0)
      then (Inl (Error_new ''Amount must be positive.''), c)
      else case usr of
        None \<Rightarrow> (Inl (Error_new ''User not found.''), c)
      | Some u \<Rightarrow>
          if js_less (balance u) amount
          then (Inl (Error_new ''Insufficient funds.''), c)
          else (case findOneAndUpdate em (inc_balance (js_neg amount)) c of
                  (v, c') \<Rightarrow> (Inr v, c')))"

section \<open>controllers/accountController.js\<close>

text \<open>
  What a handler sends: the status (\<^verbatim>\<open>res.json\<close> alone sends 200) and the JSON
  body.
\<close>

datatype body =
  Message string
  | UserBody user
  | BalanceBody string number
  | UpdatedBody string user
  | ErrorBody string string "string option"

record response =
  status :: nat
  json :: body

text \<open>
  The handlers of \<^verbatim>\<open>/findOne\<close>, \<^verbatim>\<open>/update\<close>, \<^verbatim>\<open>/deposit\<close> and
  \<^verbatim>\<open>/withdraw\<close>.  Each awaits the store call inside \<^verbatim>\<open>try\<close>, answers 404 when
  the value returned is falsy, and answers 500 from its \<^verbatim>\<open>catch\<close> block.  The
  amount is the request's \<^verbatim>\<open>parseFloat(amount)\<close>.
\<close>

definition route_findOne :: "string \<Rightarrow> collection \<Rightarrow> response \<times> collection" where
  "route_findOne em c =
     (case findOne em c of
        (Inr None, c') \<Rightarrow> (\<lparr>status = 404, json = Message ''User not found''\<rparr>, c')
      | (Inr (Some u), c') \<Rightarrow> (\<lparr>status = 200, json = UserBody u\<rparr>, c')
      | (Inl err, c') \<Rightarrow> (\<lparr>status = 500, json = Message ''Internal server error''\<rparr>, c'))"

definition route_update ::
  "string \<Rightarrow> string \<Rightarrow> string \<Rightarrow> collection \<Rightarrow> response \<times> collection" where
  "route_update em n p c =
     (case update em \<lparr>set_name = Some n, set_email = None,
                       set_password = Some p, set_balance = None,
                       set_accountType = None, set_accountNumber = None\<rparr> c of
        (Inr None, c') \<Rightarrow> (\<lparr>status = 404, json = Message ''User not found''\<rparr>, c')
      | (Inr (Some u), c') \<Rightarrow>
          (\<lparr>status = 200,
            json = UpdatedBody ''User information updated successfully'' u\<rparr>, c')
      | (Inl err, c') \<Rightarrow> (\<lparr>status = 500, json = Message ''Internal server error''\<rparr>, c'))"

definition route_deposit :: "string \<Rightarrow> number \<Rightarrow> collection \<Rightarrow> response \<times> collection" where
  "route_deposit em amount c =
     (case deposit em amount c of
        (Inr None, c') \<Rightarrow>
          (\<lparr>status = 404, json = Message ''User not found or deposit failed''\<rparr>, c')
      | (Inr (Some u), c') \<Rightarrow>
          (\<lparr>status = 200, json = BalanceBody ''Deposit successful'' (balance u)\<rparr>, c')
      | (Inl err, c') \<Rightarrow> (\<lparr>status = 500, json = Message ''Internal server error''\<rparr>, c'))"

definition route_withdraw :: "string \<Rightarrow> number \<Rightarrow> collection \<Rightarrow> response \<times> collection" where
  "route_withdraw em amount c =
     (case withdraw em amount c of
        (Inr None, c') \<Rightarrow>
          (\<lparr>status = 404, json = Message ''User not found or insufficient funds''\<rparr>, c')
      | (Inr (Some u), c') \<Rightarrow>
          (\<lparr>status = 200, json = BalanceBody ''Withdrawal successful'' (balance u)\<rparr>, c')
      | (Inl err, c') \<Rightarrow> (\<lparr>status = 500, json = Message ''Internal server error''\<rparr>, c'))"

section \<open>middlewares/errorMiddleware.js\<close>

text \<open>
  \<^verbatim>\<open>errorHandler(err, req, res, next)\<close> reads \<^verbatim>\<open>res.headersSent\<close> and
  \<^verbatim>\<open>process.env.NODE_ENV === 'development'\<close>; both are arguments here.  It either
  hands the error to \<^verbatim>\<open>next\<close> or sends a response whose body is
  \<^verbatim>\<open>{ error: { name, message, stack? } }\<close>.  \<^verbatim>\<open>err.statusCode || 500\<close> takes
  500 for a missing status and for the falsy status 0.
\<close>

datatype handled = Forwarded js_error | Responded response

definition errorHandler :: "js_error \<Rightarrow> bool \<Rightarrow> bool \<Rightarrow> handled" where
  "errorHandler err headersSent development =
     (if headersSent then Forwarded err
      else
        let code = (case statusCode err of
                      None \<Rightarrow> 500
                    | Some k \<Rightarrow> if k = 0 then 500 else k)
        in Responded
             \<lparr>status = code,
              json = ErrorBody (err_name err) (err_message err)
                       (if development then Some (stack err) else None)\<rparr>)"

section \<open>models/user.js\<close>

text \<open>
  The schema that \<^verbatim>\<open>save()\<close> validates a document against: \<^verbatim>\<open>name\<close>,
  \<^verbatim>\<open>email\<close>, \<^verbatim>\<open>password\<close>, \<^verbatim>\<open>accountType\<close> and \<^verbatim>\<open>accountNumber\<close> are
  required strings (a required string must be present and non-empty), \<^verbatim>\<open>email\<close>
  must match \<^verbatim>\<open>/.+\@.+\..+/\<close>, and \<^verbatim>\<open>balance\<close> is a \<^verbatim>\<open>Number\<close>, a type to
  which \<^verbatim>\<open>NaN\<close> does not cast.  Each failure is recorded with its path and the
  message the schema gives.
\<close>

definition line_terminator :: "char \<Rightarrow> bool" where
  "line_terminator ch = (ch = CHR 0x0A \<or> ch = CHR 0x0D)"

text \<open>
  The regular expression is not anchored and its dot matches any character but a
  line terminator: somewhere in the string there is such a character, an \<^verbatim>\<open>@\<close>,
  one or more such characters, a dot, and one more such character.
\<close>

fun dot_then_char :: "string \<Rightarrow> bool" where
  "dot_then_char (d # y # rest) = (d = CHR ''.'' \<and> \<not> line_terminator y)"
| "dot_then_char s = False"

fun domain_part :: "string \<Rightarrow> bool" where
  "domain_part [] = False"
| "domain_part (x # xs) = (\<not> line_terminator x \<and> (dot_then_char xs \<or> domain_part xs))"

fun at_part :: "string \<Rightarrow> bool" where
  "at_part (x # a # rest) = (\<not> line_terminator x \<and> a = CHR ''@'' \<and> domain_part rest)"
| "at_part s = False"

fun email_match :: "string \<Rightarrow> bool" where
  "email_match [] = False"
| "email_match (x # xs) = (at_part (x # xs) \<or> email_match xs)"

datatype invalid = Invalid string string

definition required_string :: "string \<Rightarrow> string \<Rightarrow> string option \<Rightarrow> invalid list" where
  "required_string path msg v =
     (case v of
        None \<Rightarrow> [Invalid path msg]
      | Some s \<Rightarrow> if s = [] then [Invalid path msg] else [])"

definition schema_failures :: "user \<Rightarrow> invalid list" where
  "schema_failures u =
     required_string ''name'' ''Name is required'' (Some (name u))
     @ (if email u = [] then [Invalid ''email'' ''Email is required'']
        else if \<not> email_match (email u)
        then [Invalid ''email'' ''Please fill a valid email address'']
        else [])
     @ required_string ''password'' ''Password is required'' (Some (password u))
     @ (if balance u = NaN then [Invalid ''balance'' ''Cast to Number failed''] else [])
     @ required_string ''accountType'' ''Account type is required'' (accountType u)
     @ required_string ''accountNumber'' ''Account number is required'' (accountNumber u)"

section \<open>repositories/userRepository.js\<close>

text \<open>
  The second persistence implementation works through the Mongoose model, whose
  collection is the same \<^verbatim>\<open>users\<close>: \<^verbatim>\<open>User.findOne({ email })\<close> loads the first
  match, the method changes \<^verbatim>\<open>user.balance\<close> in memory, and \<^verbatim>\<open>user.save()\<close>
  validates the document against the schema and, when it passes, writes it back in
  place: the document loaded is the first match for the address, and that is the one
  replaced.  When it does not pass, \<^verbatim>\<open>save\<close> throws a validation error, which the
  method rethrows as \<^verbatim>\<open>new Error(prefix + error.message)\<close>: \<open>Rethrown\<close> with the
  prefix and the failures the message reports.  The methods return
  \<^verbatim>\<open>{ balance }\<close>, or \<^verbatim>\<open>null\<close>.
\<close>

datatype repo_error = Rethrown string "invalid list"

definition save :: "string \<Rightarrow> user \<Rightarrow> collection \<Rightarrow> (invalid list + unit) \<times> collection" where
  "save em u c =
     (case schema_failures u of
        [] \<Rightarrow> (Inr (), snd (findOneAndUpdate em (\<lambda>_. u) c))
      | f # fs \<Rightarrow> (Inl (f # fs), c))"

definition UserRepository_deposit ::
  "string \<Rightarrow> number \<Rightarrow> collection \<Rightarrow> (repo_error + number option) \<times> collection" where
  "UserRepository_deposit em amount c =
     (case coll_findOne em c of
        None \<Rightarrow> (Inr None, c)
      | Some u \<Rightarrow>
          (let u' = u\<lparr>balance := js_add (balance u) amount\<rparr> in
           case save em u' c of
             (Inl failures, c') \<Rightarrow> (Inl (Rethrown ''Error depositing money: '' failures), c')
           | (Inr _, c') \<Rightarrow> (Inr (Some (balance u')), c')))"

definition UserRepository_withdraw ::
  "string \<Rightarrow> number \<Rightarrow> collection \<Rightarrow> (repo_error + number option) \<times> collection" where
  "UserRepository_withdraw em amount c =
     (case coll_findOne em c of
        None \<Rightarrow> (Inr None, c)
      | Some u \<Rightarrow>
          if js_less (balance u) amount then (Inr None, c)
          else
            (let u' = u\<lparr>balance := js_sub (balance u) amount\<rparr> in
             case save em u' c of
               (Inl failures, c') \<Rightarrow>
                 (Inl (Rethrown ''Error withdrawing money: '' failures), c')
             | (Inr _, c') \<Rightarrow> (Inr (Some (balance u')), c')))"

section \<open>Sequences of store operations\<close>

text \<open>
  A call of one of the four mutating operations of \<^verbatim>\<open>dal.js\<close>, and the collection
  after a sequence of such calls, whatever each call returned or threw.
\<close>

datatype store_op =
  Create string string string
  | Deposit string number
  | Withdraw string number
  | Update string newData

fun apply_op :: "store_op \<Rightarrow> collection \<Rightarrow> collection" where
  "apply_op (Create n em p) c = snd (create n em p c)"
| "apply_op (Deposit em amount) c = snd (deposit em amount c)"
| "apply_op (Withdraw em amount) c = snd (withdraw em amount c)"
| "apply_op (Update em d) c = snd (update em d c)"

fun run_ops :: "store_op list \<Rightarrow> collection \<Rightarrow> collection" where
  "run_ops [] c = c"
| "run_ops (x # xs) c = run_ops xs (apply_op x c)"

text \<open>
  No balance is negative (\<^verbatim>\<open>balance < 0\<close> is false of every document), and the
  stronger \<^verbatim>\<open>balance >= 0\<close> of every document, which \<^verbatim>\<open>NaN\<close> does not satisfy.
\<close>

definition no_negative_balance :: "collection \<Rightarrow> bool" where
  "no_negative_balance c = list_all (\<lambda>u. \<not> js_less (balance u) (Finite 0)) c"

definition balances_nonneg :: "collection \<Rightarrow> bool" where
  "balances_nonneg c = list_all (\<lambda>u. js_le (Finite 0) (balance u)) c"

text \<open>
  The calls that keep balances from going negative: a deposit of a positive amount,
  and an update whose object does not carry a negative \<^verbatim>\<open>balance\<close>.  The calls
  whose numbers are finite: no amount is \<^verbatim>\<open>NaN\<close> or an infinity, and no update
  carries the balance \<^verbatim>\<open>NaN\<close>.
\<close>

fun keeps_balance :: "store_op \<Rightarrow> bool" where
  "keeps_balance (Create n em p) = True"
| "keeps_balance (Deposit em amount) = js_less (Finite 0) amount"
| "keeps_balance (Withdraw em amount) = True"
| "keeps_balance (Update em d) =
     (case set_balance d of None \<Rightarrow> True | Some b \<Rightarrow> \<not> js_less b (Finite 0))"

fun finite_amount :: "store_op \<Rightarrow> bool" where
  "finite_amount (Create n em p) = True"
| "finite_amount (Deposit em amount) = isFinite amount"
| "finite_amount (Withdraw em amount) = isFinite amount"
| "finite_amount (Update em d) = (set_balance d \<noteq> Some NaN)"

section \<open>Facts about rounding\<close>

lemma overflow_threshold_code [code]:
  "overflow_threshold = 179769313486231590772930519078902473361797697894230657273430081157732675805500963132708477322407536021120113879871393357658789768814416622492847430639474124377767893424865485276302219601246094119453082952085005768838150682342462881473913110540827237163350510684586298239947245938479716304835356329624224137216"
  by (simp add: overflow_threshold_def)

lemma round_half_even_of_int: "round_half_even (of_int k) = k"
  by (simp add: round_half_even_def)

lemma round_half_even_nonneg: "0 \<le> q \<Longrightarrow> 0 \<le> round_half_even q"
  by (auto simp: round_half_even_def Let_def)

lemma ulp_pos: "0 < ulp q"
  by (simp add: ulp_def)

text \<open>\<open>exponent q\<close> is the integer part of the binary logarithm of \<open>\<bar>q\<bar>\<close>.\<close>

lemma exponent_bounds:
  assumes "q \<noteq> 0"
  shows "2 powi (exponent q) \<le> \<bar>q\<bar> \<and> \<bar>q\<bar> < 2 powi (exponent q + 1)"
proof -
  obtain p d where pd: "quotient_of \<bar>q\<bar> = (p, d)" by (cases "quotient_of \<bar>q\<bar>")
  then have d: "0 < d" by (rule quotient_of_denom_pos)
  from pd have q: "\<bar>q\<bar> = of_int p / of_int d" by (rule quotient_of_div)
  from assms have "0 < \<bar>q\<bar>" by simp
  with q d have p: "0 < p" by (simp add: zero_less_divide_iff)
  let ?bp = "bitlen p" and ?bd = "bitlen d"
  from p d have bp1: "1 \<le> ?bp" and bd1: "1 \<le> ?bd" by (simp_all add: bitlen_alt_def)
  from bitlen_bounds [OF p] have pl: "(2::rat) ^ nat (?bp - 1) \<le> of_int p"
    and pu: "of_int p < (2::rat) ^ nat ?bp"
    by (metis of_int_le_iff of_int_numeral of_int_power,
        metis of_int_less_iff of_int_numeral of_int_power)
  from bitlen_bounds [OF d] have dl: "(2::rat) ^ nat (?bd - 1) \<le> of_int d"
    and du: "of_int d < (2::rat) ^ nat ?bd"
    by (metis of_int_le_iff of_int_numeral of_int_power,
        metis of_int_less_iff of_int_numeral of_int_power)
  have dpos: "(0::rat) < of_int d" using d by simp
  have ppos: "(0::rat) < of_int p" using p by simp
  have upper: "\<bar>q\<bar> < 2 powi (?bp - ?bd + 1)"
  proof -
    have "of_int p / of_int d < (2::rat) ^ nat ?bp / of_int d"
      using pu dpos by (simp add: divide_strict_right_mono)
    also have "\<dots> \<le> 2 ^ nat ?bp / 2 ^ nat (?bd - 1)"
      using dl by (simp add: frac_le)
    also have "\<dots> = 2 powi ?bp / 2 powi (?bd - 1)"
      using bp1 bd1 by (simp add: power_int_def)
    also have "\<dots> = 2 powi (?bp - (?bd - 1))"
      by (simp add: power_int_diff)
    also have "\<dots> = 2 powi (?bp - ?bd + 1)"
      by (simp add: algebra_simps)
    finally show ?thesis using q by simp
  qed
  have lower: "2 powi (?bp - ?bd - 1) < \<bar>q\<bar>"
  proof -
    have "(2::rat) powi (?bp - ?bd - 1) = 2 powi ((?bp - 1) - ?bd)"
      by (simp add: algebra_simps)
    also have "\<dots> = 2 powi (?bp - 1) / 2 powi ?bd"
      by (simp add: power_int_diff)
    also have "\<dots> = 2 ^ nat (?bp - 1) / 2 ^ nat ?bd"
      using bp1 bd1 by (simp add: power_int_def)
    also have "\<dots> \<le> of_int p / 2 ^ nat ?bd"
      using pl by (simp add: divide_right_mono)
    also have "\<dots> < of_int p / of_int d"
      using du dpos ppos by (simp add: divide_strict_left_mono)
    finally show ?thesis using q by simp
  qed
  show ?thesis
  proof (cases "2 powi (?bp - ?bd) \<le> \<bar>q\<bar>")
    case True
    with pd have "exponent q = ?bp - ?bd" by (simp add: exponent_def Let_def)
    with True upper show ?thesis by simp
  next
    case False
    with pd have "exponent q = ?bp - ?bd - 1" by (simp add: exponent_def Let_def)
    with False lower show ?thesis by simp
  qed
qed

text \<open>A finite result of rounding lies within half a spacing of the exact value.\<close>

lemma round_half_even_near: "\<bar>of_int (round_half_even q) - q\<bar> \<le> 1 / 2"
proof -
  let ?r = "q - of_int \<lfloor>q\<rfloor>"
  have lo: "0 \<le> ?r" and hi: "?r < 1" by linarith+
  consider "?r < 1 / 2" | "1 / 2 < ?r" | "?r = 1 / 2" by linarith
  then show ?thesis
  proof cases
    case 1
    then have "round_half_even q = \<lfloor>q\<rfloor>" by (simp add: round_half_even_def Let_def)
    with lo 1 show ?thesis by simp
  next
    case 2
    then have "round_half_even q = \<lfloor>q\<rfloor> + 1" by (simp add: round_half_even_def Let_def)
    with hi 2 show ?thesis by simp
  next
    case 3
    then have "round_half_even q = \<lfloor>q\<rfloor> \<or> round_half_even q = \<lfloor>q\<rfloor> + 1"
      by (simp add: round_half_even_def Let_def)
    with 3 show ?thesis by auto
  qed
qed

lemma round_double_near:
  assumes "round_double q = Finite r"
  shows "\<bar>r - q\<bar> \<le> ulp q / 2"
proof (cases "q = 0")
  case True
  with assms ulp_pos [of q] show ?thesis by (simp add: round_double_def)
next
  case False
  let ?m = "round_half_even (q / ulp q)"
  from False assms have r: "r = of_int ?m * ulp q"
    by (simp add: round_double_def Let_def split: if_splits)
  have "r - q = (of_int ?m - q / ulp q) * ulp q"
    using ulp_pos [of q] by (simp add: r algebra_simps)
  then have "\<bar>r - q\<bar> = \<bar>of_int ?m - q / ulp q\<bar> * ulp q"
    using ulp_pos [of q] by (simp add: abs_mult)
  also have "\<dots> \<le> 1 / 2 * ulp q"
    using round_half_even_near [of "q / ulp q"] ulp_pos [of q]
    by (intro mult_right_mono) simp_all
  finally show ?thesis by simp
qed

text \<open>A double rounds to itself.\<close>

lemma round_double_exact: "is_double q \<Longrightarrow> round_double q = Finite q"
proof (cases "q = 0")
  case True
  then show ?thesis by (simp add: round_double_def)
next
  case False
  assume "is_double q"
  with False have b: "\<bar>q\<bar> < overflow_threshold"
    and i: "of_int \<lfloor>q / ulp q\<rfloor> = q / ulp q"
    by (simp_all add: is_double_def)
  from i have "of_int (round_half_even (q / ulp q)) = q / ulp q"
    by (metis round_half_even_of_int)
  then have "of_int (round_half_even (q / ulp q)) * ulp q = q / ulp q * ulp q"
    by (simp only:)
  also have "\<dots> = q" using ulp_pos [of q] by simp
  finally have "of_int (round_half_even (q / ulp q)) * ulp q = q" .
  moreover from b have "\<not> overflow_threshold \<le> q" and "\<not> q \<le> - overflow_threshold"
    by linarith+
  ultimately show ?thesis using False by (simp add: round_double_def Let_def)
qed

lemma exponent_of_int:
  assumes "n \<noteq> 0"
  shows "exponent (of_int n) = bitlen \<bar>n\<bar> - 1"
proof -
  from assms have pos: "0 < \<bar>n\<bar>" by simp
  have q: "quotient_of \<bar>of_int n :: rat\<bar> = (\<bar>n\<bar>, 1)"
    by (metis of_int_abs quotient_of_int Rat.of_int_def)
  from pos have b1: "1 \<le> bitlen \<bar>n\<bar>" by (simp add: bitlen_alt_def)
  have "bitlen 1 = 1" by (simp add: bitlen_alt_def)
  moreover from bitlen_bounds [OF pos] have "2 ^ nat (bitlen \<bar>n\<bar> - 1) \<le> \<bar>n\<bar>" by simp
  then have "(2::rat) ^ nat (bitlen \<bar>n\<bar> - 1) \<le> of_int \<bar>n\<bar>"
    by (metis of_int_le_iff of_int_numeral of_int_power)
  with b1 have "(2::rat) powi (bitlen \<bar>n\<bar> - 1) \<le> \<bar>of_int n\<bar>"
    by (simp add: power_int_def)
  ultimately show ?thesis by (simp add: exponent_def q Let_def)
qed

text \<open>Every integer of magnitude at most \<open>2\<^sup>5\<^sup>3\<close> is a double.\<close>

lemma is_double_of_int:
  assumes "\<bar>n\<bar> \<le> 2 ^ 53"
  shows "is_double (of_int n)"
proof (cases "n = 0")
  case True
  then show ?thesis by (simp add: is_double_def)
next
  case False
  then have pos: "0 < \<bar>n\<bar>" by simp
  let ?b = "bitlen \<bar>n\<bar>"
  from pos have b1: "1 \<le> ?b" by (simp add: bitlen_alt_def)
  from assms have "\<bar>n\<bar> < 2 ^ nat 54" by simp
  then have b54: "?b \<le> 54" by (simp add: bitlen_le_iff_power)
  have e: "exponent (of_int n) = ?b - 1" using False by (rule exponent_of_int)
  with b1 have u: "ulp (of_int n) = 2 powi (?b - 53)" by (simp add: ulp_def max_def)
  have small: "\<bar>of_int n :: rat\<bar> < overflow_threshold"
  proof -
    from assms have "\<bar>of_int n :: rat\<bar> \<le> 2 ^ 53"
      by (metis of_int_abs of_int_le_iff of_int_numeral of_int_power)
    also have "\<dots> < overflow_threshold" by (simp add: overflow_threshold_def)
    finally show ?thesis .
  qed
  have "\<exists>k. (of_int n :: rat) / 2 powi (?b - 53) = of_int k"
  proof (cases "?b \<le> 53")
    case True
    then have "(2::rat) powi (?b - 53) = inverse (2 ^ nat (53 - ?b))"
      by (cases "?b = 53") (simp_all add: power_int_def power_one_over inverse_eq_divide)
    then have "(of_int n :: rat) / 2 powi (?b - 53) = of_int (n * 2 ^ nat (53 - ?b))"
      by (simp add: field_simps)
    then show ?thesis by blast
  next
    case False
    with b54 have b: "?b = 54" by simp
    from bitlen_bounds [OF pos] b have "2 ^ 53 \<le> \<bar>n\<bar>" by simp
    with assms have "\<bar>n\<bar> = 2 ^ 53" by simp
    then have "n = 2 ^ 53 \<or> n = - (2 ^ 53)" by linarith
    then have "(of_int n :: rat) / 2 powi (?b - 53) = of_int (n div 2)"
      using b by auto
    then show ?thesis by blast
  qed
  then obtain k where "(of_int n :: rat) / ulp (of_int n) = of_int k" using u by auto
  then have "of_int \<lfloor>(of_int n :: rat) / ulp (of_int n)\<rfloor> = (of_int n :: rat) / ulp (of_int n)"
    by simp
  with small show ?thesis by (simp add: is_double_def)
qed

lemma is_double_numeral:
  "numeral w \<le> (9007199254740992 :: int) \<Longrightarrow> is_double (numeral w)"
  using is_double_of_int [of "numeral w"] by simp

lemma round_double_numeral:
  "numeral w \<le> (9007199254740992 :: int) \<Longrightarrow> round_double (numeral w) = Finite (numeral w)"
  by (simp add: round_double_exact is_double_numeral)

lemma round_double_zero: "round_double 0 = Finite 0"
  by (simp add: round_double_def)

text \<open>Rounding does not change the sign.\<close>

lemma round_double_nonneg:
  assumes "0 \<le> q"
  shows "round_double q = Infinity \<or> (\<exists>r\<ge>0. round_double q = Finite r)"
proof (cases "q = 0")
  case True
  then show ?thesis by (simp add: round_double_def)
next
  case False
  let ?r = "of_int (round_half_even (q / ulp q)) * ulp q"
  from assms ulp_pos [of q] have "0 \<le> q / ulp q" by simp
  then have "0 \<le> round_half_even (q / ulp q)" by (rule round_half_even_nonneg)
  with ulp_pos [of q] have r: "0 \<le> ?r" by simp
  have "0 < overflow_threshold" by (simp add: overflow_threshold_def)
  with r have "\<not> ?r \<le> - overflow_threshold" by linarith
  with False r show ?thesis by (auto simp: round_double_def Let_def)
qed

lemma round_double_sign:
  "0 \<le> q \<Longrightarrow> \<not> js_less (round_double q) (Finite 0) \<and> js_le (Finite 0) (round_double q)"
  using round_double_nonneg [of q] by auto

text \<open>The odd integers just above \<open>2\<^sup>5\<^sup>3\<close> are not doubles.\<close>

lemma round_above_2_53: "round_double 9007199254740993 = Finite 9007199254740992"
  by code_simp

lemma js_sub_add_neg: "js_sub x y = js_add x (js_neg y)"
  by (cases x; cases y) simp_all

lemma add_not_negative:
  "\<not> js_less b (Finite 0) \<Longrightarrow> js_less (Finite 0) a \<Longrightarrow>
   \<not> js_less (js_add b a) (Finite 0)"
  by (cases b; cases a) (simp_all add: round_double_sign)

lemma sub_not_negative:
  "\<not> js_less b (Finite 0) \<Longrightarrow> \<not> js_le a (Finite 0) \<Longrightarrow> \<not> js_less b a \<Longrightarrow>
   \<not> js_less (js_add b (js_neg a)) (Finite 0)"
  by (cases b; cases a) (simp_all add: round_double_sign)

lemma add_nonneg:
  "js_le (Finite 0) b \<Longrightarrow> js_less (Finite 0) a \<Longrightarrow> js_le (Finite 0) (js_add b a)"
  by (cases b; cases a) (simp_all add: round_double_sign)

lemma sub_nonneg:
  "js_le (Finite 0) b \<Longrightarrow> isFinite a \<Longrightarrow> \<not> js_less b a \<Longrightarrow>
   js_le (Finite 0) (js_add b (js_neg a))"
  by (cases b; cases a) (simp_all add: round_double_sign)

section \<open>Facts about the driver calls\<close>

lemma findOneAndUpdate_absent:
  "coll_findOne em c = None \<Longrightarrow> findOneAndUpdate em upd c = (None, c)"
  by (induction c) (auto simp: coll_findOne_def)

text \<open>
  When a document matches, the collection splits around the first match and only
  that document is rewritten.
\<close>

lemma findOneAndUpdate_present:
  "coll_findOne em c = Some u \<Longrightarrow>
   \<exists>pre post. c = pre @ u # post \<and> coll_findOne em pre = None \<and>
     findOneAndUpdate em upd c = (Some (upd u), pre @ upd u # post)"
proof (induction c)
  case Nil
  then show ?case by (simp add: coll_findOne_def)
next
  case (Cons v vs)
  show ?case
  proof (cases "email v = em")
    case True
    with Cons.prems have "v = u" by (simp add: coll_findOne_def)
    with True have "v # vs = [] @ u # vs \<and> coll_findOne em [] = None \<and>
        findOneAndUpdate em upd (v # vs) = (Some (upd u), [] @ upd u # vs)"
      by (simp add: coll_findOne_def)
    then show ?thesis by blast
  next
    case False
    with Cons.prems have "coll_findOne em vs = Some u" by (simp add: coll_findOne_def)
    from Cons.IH [OF this] obtain pre post where
      h: "vs = pre @ u # post" "coll_findOne em pre = None"
         "findOneAndUpdate em upd vs = (Some (upd u), pre @ upd u # post)"
      by blast
    with False have "v # vs = (v # pre) @ u # post \<and> coll_findOne em (v # pre) = None \<and>
        findOneAndUpdate em upd (v # vs) = (Some (upd u), (v # pre) @ upd u # post)"
      by (simp add: coll_findOne_def)
    then show ?thesis by blast
  qed
qed

lemma findOneAndUpdate_const:
  "coll_findOne em c = Some u \<Longrightarrow>
   findOneAndUpdate em (\<lambda>_. upd u) c = findOneAndUpdate em upd c"
  by (induction c) (auto simp: coll_findOne_def)

lemma findOneAndUpdate_list_all:
  "list_all P c \<Longrightarrow> (\<And>u. P u \<Longrightarrow> P (upd u)) \<Longrightarrow>
   list_all P (snd (findOneAndUpdate em upd c))"
  by (induction c) (auto split: prod.splits)

lemma coll_findOne_email: "coll_findOne em c = Some u \<Longrightarrow> email u = em"
  by (induction c) (auto simp: coll_findOne_def split: if_splits)

lemma coll_findOne_mem: "coll_findOne em c = Some u \<Longrightarrow> u \<in> set c"
  by (induction c) (auto simp: coll_findOne_def split: if_splits)

lemma coll_findOne_None_iff:
  "coll_findOne em c = None \<longleftrightarrow> list_all (\<lambda>u. email u \<noteq> em) c"
  by (induction c) (auto simp: coll_findOne_def)

lemma deposit_snd: "snd (deposit em a c) = snd (findOneAndUpdate em (inc_balance a) c)"
  by (simp add: deposit_def split: prod.splits)

lemma update_snd: "snd (update em d c) = snd (findOneAndUpdate em (set_fields d) c)"
  by (simp add: update_def split: prod.splits)

text \<open>
  A \<^verbatim>\<open>withdraw\<close> either leaves the collection as it was, or passed all three
  tests and rewrote the first match.
\<close>

lemma withdraw_snd:
  "snd (withdraw em a c) = c
   \<or> (\<exists>u pre post. c = pre @ u # post \<and> \<not> js_le a (Finite 0) \<and> \<not> js_less (balance u) a \<and>
        snd (withdraw em a c) = pre @ inc_balance (js_neg a) u # post)"
proof (cases "coll_findOne em c")
  case None
  then show ?thesis by (simp add: withdraw_def Let_def)
next
  case (Some u)
  show ?thesis
  proof (cases "js_le a (Finite 0) \<or> js_less (balance u) a")
    case True
    with Some show ?thesis by (auto simp: withdraw_def Let_def)
  next
    case False
    from findOneAndUpdate_present [OF Some, of "inc_balance (js_neg a)"]
    obtain pre post where h: "c = pre @ u # post"
      "findOneAndUpdate em (inc_balance (js_neg a)) c =
         (Some (inc_balance (js_neg a) u), pre @ inc_balance (js_neg a) u # post)"
      by blast
    from Some False h(2) have "snd (withdraw em a c) = pre @ inc_balance (js_neg a) u # post"
      by (simp add: withdraw_def Let_def)
    with h(1) False show ?thesis by blast
  qed
qed

section \<open>The balance invariant\<close>

lemma apply_op_keeps:
  assumes "keeps_balance x" and "no_negative_balance c"
  shows "no_negative_balance (apply_op x c)"
proof (cases x)
  case (Create n em p)
  with assms show ?thesis
    by (simp add: create_def insertOne_def no_negative_balance_def Let_def)
next
  case (Deposit em a)
  with assms have "js_less (Finite 0) a" by simp
  then have "\<And>u. \<not> js_less (balance u) (Finite 0) \<Longrightarrow>
      \<not> js_less (balance (inc_balance a u)) (Finite 0)"
    by (simp add: inc_balance_def add_not_negative)
  with assms(2)
  have "list_all (\<lambda>u. \<not> js_less (balance u) (Finite 0))
          (snd (findOneAndUpdate em (inc_balance a) c))"
    unfolding no_negative_balance_def by (rule findOneAndUpdate_list_all)
  with Deposit show ?thesis by (simp add: deposit_snd no_negative_balance_def)
next
  case (Withdraw em a)
  from withdraw_snd [of em a c] show ?thesis
  proof
    assume "snd (withdraw em a c) = c"
    with Withdraw assms(2) show ?thesis by simp
  next
    assume "\<exists>u pre post. c = pre @ u # post \<and> \<not> js_le a (Finite 0) \<and>
        \<not> js_less (balance u) a \<and>
        snd (withdraw em a c) = pre @ inc_balance (js_neg a) u # post"
    then obtain u pre post where h: "c = pre @ u # post" "\<not> js_le a (Finite 0)"
      "\<not> js_less (balance u) a"
      "snd (withdraw em a c) = pre @ inc_balance (js_neg a) u # post"
      by blast
    from assms(2) h(1) have "\<not> js_less (balance u) (Finite 0)"
      by (simp add: no_negative_balance_def)
    with h(2,3) have "\<not> js_less (balance (inc_balance (js_neg a) u)) (Finite 0)"
      by (simp add: inc_balance_def sub_not_negative)
    with assms(2) h(1,4) Withdraw show ?thesis by (simp add: no_negative_balance_def)
  qed
next
  case (Update em d)
  with assms have "\<And>u. \<not> js_less (balance u) (Finite 0) \<Longrightarrow>
      \<not> js_less (balance (set_fields d u)) (Finite 0)"
    by (simp add: set_fields_def split: option.splits)
  with assms(2)
  have "list_all (\<lambda>u. \<not> js_less (balance u) (Finite 0))
          (snd (findOneAndUpdate em (set_fields d) c))"
    unfolding no_negative_balance_def by (rule findOneAndUpdate_list_all)
  with Update show ?thesis by (simp add: update_snd no_negative_balance_def)
qed

lemma apply_op_nonneg:
  assumes "keeps_balance x" and "finite_amount x" and "balances_nonneg c"
  shows "balances_nonneg (apply_op x c)"
proof (cases x)
  case (Create n em p)
  with assms show ?thesis
    by (simp add: create_def insertOne_def balances_nonneg_def Let_def)
next
  case (Deposit em a)
  with assms have "js_less (Finite 0) a" by simp
  then have "\<And>u. js_le (Finite 0) (balance u) \<Longrightarrow>
      js_le (Finite 0) (balance (inc_balance a u))"
    by (simp add: inc_balance_def add_nonneg)
  with assms(3)
  have "list_all (\<lambda>u. js_le (Finite 0) (balance u))
          (snd (findOneAndUpdate em (inc_balance a) c))"
    unfolding balances_nonneg_def by (rule findOneAndUpdate_list_all)
  with Deposit show ?thesis by (simp add: deposit_snd balances_nonneg_def)
next
  case (Withdraw em a)
  with assms(2) have fin: "isFinite a" by simp
  from withdraw_snd [of em a c] show ?thesis
  proof
    assume "snd (withdraw em a c) = c"
    with Withdraw assms(3) show ?thesis by simp
  next
    assume "\<exists>u pre post. c = pre @ u # post \<and> \<not> js_le a (Finite 0) \<and>
        \<not> js_less (balance u) a \<and>
        snd (withdraw em a c) = pre @ inc_balance (js_neg a) u # post"
    then obtain u pre post where h: "c = pre @ u # post"
      "\<not> js_less (balance u) a"
      "snd (withdraw em a c) = pre @ inc_balance (js_neg a) u # post"
      by blast
    from assms(3) h(1) have "js_le (Finite 0) (balance u)"
      by (simp add: balances_nonneg_def)
    with fin h(2) have "js_le (Finite 0) (balance (inc_balance (js_neg a) u))"
      by (simp add: inc_balance_def sub_nonneg)
    with assms(3) h(1,3) Withdraw show ?thesis by (simp add: balances_nonneg_def)
  qed
next
  case (Update em d)
  have "js_le (Finite 0) b" if "\<not> js_less b (Finite 0)" and "b \<noteq> NaN" for b
    using that by (cases b) simp_all
  with Update assms(1,2) have "\<And>u. js_le (Finite 0) (balance u) \<Longrightarrow>
      js_le (Finite 0) (balance (set_fields d u))"
    by (auto simp: set_fields_def split: option.splits)
  with assms(3)
  have "list_all (\<lambda>u. js_le (Finite 0) (balance u))
          (snd (findOneAndUpdate em (set_fields d) c))"
    unfolding balances_nonneg_def by (rule findOneAndUpdate_list_all)
  with Update show ?thesis by (simp add: update_snd balances_nonneg_def)
qed

lemma run_ops_keeps:
  "list_all keeps_balance ops \<Longrightarrow> no_negative_balance c \<Longrightarrow>
   no_negative_balance (run_ops ops c)"
  by (induction ops arbitrary: c) (simp_all add: apply_op_keeps)

lemma run_ops_nonneg:
  "list_all keeps_balance ops \<Longrightarrow> list_all finite_amount ops \<Longrightarrow> balances_nonneg c \<Longrightarrow>
   balances_nonneg (run_ops ops c)"
  by (induction ops arbitrary: c) (simp_all add: apply_op_nonneg)

lemma round_double_neg_numeral:
  "numeral w \<le> (9007199254740992 :: int) \<Longrightarrow>
   round_double (- numeral w) = Finite (- numeral w)"
  using is_double_of_int [of "- numeral w"] by (simp add: round_double_exact)

lemma positive_not_le_zero: "js_less (Finite 0) a \<Longrightarrow> \<not> js_le a (Finite 0)"
  by (cases a) simp_all

lemma js_le_not_less: "js_le a b \<Longrightarrow> \<not> js_less b a"
  by (cases a; cases b) simp_all

text \<open>
  C1 as the specification words it does not hold: \<^verbatim>\<open>update\<close> writes whatever
  fields its object carries, a \<^verbatim>\<open>balance\<close> included, and \<^verbatim>\<open>deposit\<close> runs its
  \<^verbatim>\<open>$inc\<close> before it looks at the sign of the amount.  Either call, right after a
  \<^verbatim>\<open>create\<close>, leaves a negative balance in the collection.
\<close>

theorem balance_invariant_counterexample:
  "\<not> no_negative_balance
       (run_ops [Create ''John Doe'' ''john@example.com'' ''password123'',
                 Update ''john@example.com''
                   \<lparr>set_name = None, set_email = None, set_password = None,
                    set_balance = Some (Finite (- 1)),
                    set_accountType = None, set_accountNumber = None\<rparr>] [])
   \<and> \<not> no_negative_balance
       (run_ops [Create ''John Doe'' ''john@example.com'' ''password123'',
                 Deposit ''john@example.com'' (Finite (- 5))] [])"
  by (simp add: no_negative_balance_def create_def insertOne_def update_def deposit_def
        set_fields_def inc_balance_def Let_def round_double_neg_numeral)

text \<open>
  C1, amended: from a collection in which no balance is negative (the empty one,
  for instance), every sequence of \<^verbatim>\<open>create\<close>, \<^verbatim>\<open>deposit\<close> of a positive amount,
  \<^verbatim>\<open>withdraw\<close> and \<^verbatim>\<open>update\<close> whose object carries no negative balance leaves
  no balance negative.  A balance that is not negative may still be \<^verbatim>\<open>NaN\<close>,
  which a withdrawal of \<^verbatim>\<open>NaN\<close>, or of \<^verbatim>\<open>Infinity\<close> from \<^verbatim>\<open>Infinity\<close>, stores;
  when moreover every amount is a finite number and no update carries \<^verbatim>\<open>NaN\<close>,
  every balance stays \<^verbatim>\<open>>= 0\<close>.  \<^verbatim>\<open>create\<close> stores and returns the document with
  balance 0, and a \<^verbatim>\<open>withdraw\<close> of more than the balance throws
  \<^verbatim>\<open>Insufficient funds.\<close> and leaves the whole collection as it was.
\<close>

theorem balance_invariant:
  assumes "list_all keeps_balance ops" and "no_negative_balance c"
  shows "no_negative_balance (run_ops ops c)
       \<and> (list_all finite_amount ops \<and> balances_nonneg c \<longrightarrow>
            balances_nonneg (run_ops ops c))
       \<and> create n em p c =
           (Inr (Some \<lparr>name = n, email = em, password = p, balance = Finite 0,
                       accountType = None, accountNumber = None\<rparr>),
            c @ [\<lparr>name = n, email = em, password = p, balance = Finite 0,
                   accountType = None, accountNumber = None\<rparr>])
       \<and> (coll_findOne em c = Some u \<and> js_less (balance u) a \<longrightarrow>
            withdraw em a c = (Inl (Error_new ''Insufficient funds.''), c))"
proof -
  from assms have "no_negative_balance (run_ops ops c)" by (rule run_ops_keeps)
  moreover from assms(1) have "list_all finite_amount ops \<and> balances_nonneg c \<longrightarrow>
      balances_nonneg (run_ops ops c)"
    by (simp add: run_ops_nonneg)
  moreover have "create n em p c =
      (Inr (Some \<lparr>name = n, email = em, password = p, balance = Finite 0,
                  accountType = None, accountNumber = None\<rparr>),
       c @ [\<lparr>name = n, email = em, password = p, balance = Finite 0,
              accountType = None, accountNumber = None\<rparr>])"
    by (simp add: create_def insertOne_def Let_def)
  moreover have "coll_findOne em c = Some u \<and> js_less (balance u) a \<longrightarrow>
            withdraw em a c = (Inl (Error_new ''Insufficient funds.''), c)"
  proof
    assume h: "coll_findOne em c = Some u \<and> js_less (balance u) a"
    then have "u \<in> set c" by (blast intro: coll_findOne_mem)
    with assms(2) have "\<not> js_less (balance u) (Finite 0)"
      by (simp add: no_negative_balance_def list_all_iff)
    with h have "\<not> js_le a (Finite 0)" by (cases "balance u"; cases a) simp_all
    with h show "withdraw em a c = (Inl (Error_new ''Insufficient funds.''), c)"
      by (simp add: withdraw_def)
  qed
  ultimately show ?thesis by blast
qed

text \<open>
  The scenario of the specification: create, deposit 100, withdraw 50, then a
  withdraw of 100 that is refused; the balance ends at 50.
\<close>

theorem balance_invariant_witness:
  "list_all keeps_balance
     [Create ''John Doe'' ''john@example.com'' ''password123'',
      Deposit ''john@example.com'' (Finite 100),
      Withdraw ''john@example.com'' (Finite 50),
      Withdraw ''john@example.com'' (Finite 100)]
   \<and> list_all finite_amount
     [Create ''John Doe'' ''john@example.com'' ''password123'',
      Deposit ''john@example.com'' (Finite 100),
      Withdraw ''john@example.com'' (Finite 50),
      Withdraw ''john@example.com'' (Finite 100)]
   \<and> no_negative_balance [] \<and> balances_nonneg []
   \<and> run_ops
       [Create ''John Doe'' ''john@example.com'' ''password123'',
        Deposit ''john@example.com'' (Finite 100),
        Withdraw ''john@example.com'' (Finite 50),
        Withdraw ''john@example.com'' (Finite 100)] []
     = [\<lparr>name = ''John Doe'', email = ''john@example.com'',
        password = ''password123'', balance = Finite 50,
        accountType = None, accountNumber = None\<rparr>]
   \<and> balances_nonneg
       (run_ops
          [Create ''John Doe'' ''john@example.com'' ''password123'',
           Deposit ''john@example.com'' (Finite 100),
           Withdraw ''john@example.com'' (Finite 50),
           Withdraw ''john@example.com'' (Finite 100)] [])
   \<and> js_less (Finite 50) (Finite 100)
   \<and> withdraw ''john@example.com'' (Finite 100)
       [\<lparr>name = ''John Doe'', email = ''john@example.com'',
        password = ''password123'', balance = Finite 50,
        accountType = None, accountNumber = None\<rparr>]
     = (Inl (Error_new ''Insufficient funds.''),
        [\<lparr>name = ''John Doe'', email = ''john@example.com'',
         password = ''password123'', balance = Finite 50,
         accountType = None, accountNumber = None\<rparr>])"
  using balance_invariant
    [where ops = "[Create ''John Doe'' ''john@example.com'' ''password123'',
                   Deposit ''john@example.com'' (Finite 100),
                   Withdraw ''john@example.com'' (Finite 50),
                   Withdraw ''john@example.com'' (Finite 100)]"
       and c = "[]"]
    balance_invariant
    [where ops = "[]"
       and c = "[\<lparr>name = ''John Doe'', email = ''john@example.com'',
                 password = ''password123'', balance = Finite 50,
                 accountType = None, accountNumber = None\<rparr>]"
       and em = "''john@example.com''"
       and u = "\<lparr>name = ''John Doe'', email = ''john@example.com'',
                password = ''password123'', balance = Finite 50,
                accountType = None, accountNumber = None\<rparr>"
       and a = "Finite 100"]
  by (simp add: no_negative_balance_def balances_nonneg_def create_def insertOne_def
        deposit_def withdraw_def coll_findOne_def inc_balance_def Let_def
        round_double_numeral)

section \<open>Amounts that are not positive\<close>

text \<open>
  \<^verbatim>\<open>withdraw\<close> tests the amount before it touches the collection: an amount that is
  not positive throws and nothing is written.
\<close>

lemma withdraw_nonpositive_rejected:
  "js_le a (Finite 0) \<Longrightarrow>
   withdraw em a c = (Inl (Error_new ''Amount must be positive.''), c)"
  by (simp add: withdraw_def)

text \<open>
  \<^verbatim>\<open>deposit\<close> tests the amount after \<^verbatim>\<open>findOneAndUpdate\<close> has run: it throws
  the same error, over a collection in which the \<^verbatim>\<open>$inc\<close> has been applied.
\<close>

lemma deposit_nonpositive_writes:
  "js_le a (Finite 0) \<Longrightarrow>
   deposit em a c =
     (Inl (Error_new ''Amount must be positive.''),
      snd (findOneAndUpdate em (inc_balance a) c))"
  by (simp add: deposit_def split: prod.splits)

text \<open>
  C2 asks that \<^verbatim>\<open>deposit(email, a)\<close> with \<open>a \<le> 0\<close> fails and leaves the stored
  record as it was.  On an account holding 100, \<^verbatim>\<open>deposit\<close> of \<open>-5\<close> throws
  \<^verbatim>\<open>Amount must be positive.\<close> and the stored balance is 95.
\<close>

theorem deposit_negative_amount_debits:
  "deposit ''john@example.com'' (Finite (- 5))
     [\<lparr>name = ''John Doe'', email = ''john@example.com'',
      password = ''password123'', balance = Finite 100,
      accountType = None, accountNumber = None\<rparr>]
   = (Inl (Error_new ''Amount must be positive.''),
      [\<lparr>name = ''John Doe'', email = ''john@example.com'',
       password = ''password123'', balance = Finite 95,
       accountType = None, accountNumber = None\<rparr>])"
  by (simp add: deposit_def inc_balance_def round_double_numeral)

section \<open>withdraw and deposit on positive amounts\<close>

text \<open>
  C3 as the specification words it does not hold: the balance is a double, and so
  is the result of the \<^verbatim>\<open>$inc\<close>.  On a balance of 9007199254740994 a withdrawal of
  1 stores 9007199254740992, the double nearest to the exact difference: the balance
  went down by 2.
\<close>

theorem withdraw_exact_counterexample:
  "js_less (Finite 0) (Finite 1) \<and> js_le (Finite 1) (Finite 9007199254740994)
   \<and> withdraw ''john@example.com'' (Finite 1)
       [\<lparr>name = ''John Doe'', email = ''john@example.com'',
        password = ''password123'', balance = Finite 9007199254740994,
        accountType = None, accountNumber = None\<rparr>]
     = (Inr (Some \<lparr>name = ''John Doe'', email = ''john@example.com'',
               password = ''password123'', balance = Finite 9007199254740992,
               accountType = None, accountNumber = None\<rparr>),
        [\<lparr>name = ''John Doe'', email = ''john@example.com'',
         password = ''password123'', balance = Finite 9007199254740992,
         accountType = None, accountNumber = None\<rparr>])"
  by (simp add: withdraw_def coll_findOne_def inc_balance_def Let_def round_above_2_53)

text \<open>
  C3, amended: for an existing account (\<open>u\<close> is the first document with the
  address) and an amount \<open>a > 0\<close>: when \<open>a \<le> balance u\<close>, \<^verbatim>\<open>withdraw\<close> returns
  \<open>u\<close> with its balance replaced by the double nearest to \<open>balance u - a\<close>, and
  that is the record now stored in \<open>u\<close>'s place, every other document untouched;
  the balance goes down by exactly \<open>a\<close> whenever the exact difference is a double,
  as it is for integer balances up to \<open>2\<^sup>5\<^sup>3\<close> and integer amounts; when
  \<open>a > balance u\<close> it throws \<^verbatim>\<open>Insufficient funds.\<close> and the collection is
  unchanged.
\<close>

theorem withdraw_positive_amount:
  assumes "coll_findOne em c = Some u" and "js_less (Finite 0) a"
  shows "(js_le a (balance u) \<longrightarrow>
           (\<exists>pre post. c = pre @ u # post \<and> coll_findOne em pre = None \<and>
              withdraw em a c =
                (Inr (Some (u\<lparr>balance := js_sub (balance u) a\<rparr>)),
                 pre @ u\<lparr>balance := js_sub (balance u) a\<rparr> # post)))
       \<and> (js_le a (balance u) \<and> balance u = Finite x \<and> a = Finite y \<and>
          is_double (x - y) \<longrightarrow>
           (\<exists>pre post. c = pre @ u # post \<and> coll_findOne em pre = None \<and>
              withdraw em a c =
                (Inr (Some (u\<lparr>balance := Finite (x - y)\<rparr>)),
                 pre @ u\<lparr>balance := Finite (x - y)\<rparr> # post)))
       \<and> (js_le a (balance u) \<and> balance u = Finite (of_int i) \<and> a = Finite (of_int j) \<and>
          i \<le> 2 ^ 53 \<longrightarrow>
           (\<exists>pre post. c = pre @ u # post \<and> coll_findOne em pre = None \<and>
              withdraw em a c =
                (Inr (Some (u\<lparr>balance := Finite (of_int (i - j))\<rparr>)),
                 pre @ u\<lparr>balance := Finite (of_int (i - j))\<rparr> # post)))
       \<and> (js_less (balance u) a \<longrightarrow>
            withdraw em a c = (Inl (Error_new ''Insufficient funds.''), c))"
proof -
  from assms(2) have pos: "\<not> js_le a (Finite 0)" by (rule positive_not_le_zero)
  from findOneAndUpdate_present [OF assms(1), of "inc_balance (js_neg a)"]
  obtain pre post where h: "c = pre @ u # post" "coll_findOne em pre = None"
    "findOneAndUpdate em (inc_balance (js_neg a)) c =
       (Some (inc_balance (js_neg a) u), pre @ inc_balance (js_neg a) u # post)"
    by blast
  have upd: "inc_balance (js_neg a) u = u\<lparr>balance := js_sub (balance u) a\<rparr>"
    by (simp add: inc_balance_def js_sub_add_neg)
  have ok: "withdraw em a c =
      (Inr (Some (u\<lparr>balance := js_sub (balance u) a\<rparr>)),
       pre @ u\<lparr>balance := js_sub (balance u) a\<rparr> # post)"
    if "js_le a (balance u)"
  proof -
    from that have "\<not> js_less (balance u) a" by (rule js_le_not_less)
    with assms(1) pos h(3) upd show ?thesis by (simp add: withdraw_def Let_def)
  qed
  have general: "js_le a (balance u) \<longrightarrow>
      (\<exists>pre post. c = pre @ u # post \<and> coll_findOne em pre = None \<and>
         withdraw em a c =
           (Inr (Some (u\<lparr>balance := js_sub (balance u) a\<rparr>)),
            pre @ u\<lparr>balance := js_sub (balance u) a\<rparr> # post))"
    using h(1,2) ok by blast
  have exact: "js_le a (balance u) \<and> balance u = Finite x \<and> a = Finite y \<and>
      is_double (x - y) \<longrightarrow>
      (\<exists>pre post. c = pre @ u # post \<and> coll_findOne em pre = None \<and>
         withdraw em a c =
           (Inr (Some (u\<lparr>balance := Finite (x - y)\<rparr>)),
            pre @ u\<lparr>balance := Finite (x - y)\<rparr> # post))" for x y
  proof
    assume p: "js_le a (balance u) \<and> balance u = Finite x \<and> a = Finite y \<and>
      is_double (x - y)"
    then have le: "js_le a (balance u)" by blast
    from p have s: "js_sub (balance u) a = Finite (x - y)"
      by (simp add: round_double_exact)
    from ok [OF le] s have "withdraw em a c =
        (Inr (Some (u\<lparr>balance := Finite (x - y)\<rparr>)),
         pre @ u\<lparr>balance := Finite (x - y)\<rparr> # post)"
      by simp
    with h(1,2) show "\<exists>pre post. c = pre @ u # post \<and> coll_findOne em pre = None \<and>
         withdraw em a c =
           (Inr (Some (u\<lparr>balance := Finite (x - y)\<rparr>)),
            pre @ u\<lparr>balance := Finite (x - y)\<rparr> # post)"
      by blast
  qed
  have integers: "js_le a (balance u) \<and> balance u = Finite (of_int i) \<and>
      a = Finite (of_int j) \<and> i \<le> 2 ^ 53 \<longrightarrow>
      (\<exists>pre post. c = pre @ u # post \<and> coll_findOne em pre = None \<and>
         withdraw em a c =
           (Inr (Some (u\<lparr>balance := Finite (of_int (i - j))\<rparr>)),
            pre @ u\<lparr>balance := Finite (of_int (i - j))\<rparr> # post))"
  proof
    assume p: "js_le a (balance u) \<and> balance u = Finite (of_int i) \<and>
      a = Finite (of_int j) \<and> i \<le> 2 ^ 53"
    then have b: "balance u = Finite (of_int i)" and a: "a = Finite (of_int j)"
      and le: "js_le a (balance u)" and i: "i \<le> 2 ^ 53"
      by blast+
    from assms(2) a have "0 < j" by simp
    moreover from le a b have "j \<le> i" by simp
    ultimately have "\<bar>i - j\<bar> \<le> 2 ^ 53" using i by simp
    then have "is_double (of_int (i - j))" by (rule is_double_of_int)
    then have "is_double (of_int i - of_int j)" by simp
    with le b a have "js_le a (balance u) \<and> balance u = Finite (of_int i) \<and>
        a = Finite (of_int j) \<and> is_double (of_int i - of_int j)"
      by blast
    with exact [of "of_int i" "of_int j"]
    have "\<exists>pre post. c = pre @ u # post \<and> coll_findOne em pre = None \<and>
         withdraw em a c =
           (Inr (Some (u\<lparr>balance := Finite (of_int i - of_int j)\<rparr>)),
            pre @ u\<lparr>balance := Finite (of_int i - of_int j)\<rparr> # post)"
      by blast
    then show "\<exists>pre post. c = pre @ u # post \<and> coll_findOne em pre = None \<and>
         withdraw em a c =
           (Inr (Some (u\<lparr>balance := Finite (of_int (i - j))\<rparr>)),
            pre @ u\<lparr>balance := Finite (of_int (i - j))\<rparr> # post)"
      by simp
  qed
  have refused: "js_less (balance u) a \<longrightarrow>
      withdraw em a c = (Inl (Error_new ''Insufficient funds.''), c)"
    using assms(1) pos by (simp add: withdraw_def)
  from general exact integers refused show ?thesis by blast
qed

theorem withdraw_positive_amount_witness:
  "coll_findOne ''john@example.com''
     [\<lparr>name = ''John Doe'', email = ''john@example.com'',
      password = ''password123'', balance = Finite 100,
      accountType = None, accountNumber = None\<rparr>]
   = Some \<lparr>name = ''John Doe'', email = ''john@example.com'',
         password = ''password123'', balance = Finite 100,
         accountType = None, accountNumber = None\<rparr>
   \<and> js_less (Finite 0) (Finite 50) \<and> js_le (Finite 50) (Finite 100)
   \<and> is_double (100 - 50) \<and> (100 :: int) \<le> 2 ^ 53
   \<and> js_less (Finite 100) (Finite 150)
   \<and> withdraw ''john@example.com'' (Finite 50)
       [\<lparr>name = ''John Doe'', email = ''john@example.com'',
        password = ''password123'', balance = Finite 100,
        accountType = None, accountNumber = None\<rparr>]
     = (Inr (Some \<lparr>name = ''John Doe'', email = ''john@example.com'',
               password = ''password123'', balance = Finite 50,
               accountType = None, accountNumber = None\<rparr>),
        [\<lparr>name = ''John Doe'', email = ''john@example.com'',
         password = ''password123'', balance = Finite 50,
         accountType = None, accountNumber = None\<rparr>])
   \<and> withdraw ''john@example.com'' (Finite 150)
       [\<lparr>name = ''John Doe'', email = ''john@example.com'',
        password = ''password123'', balance = Finite 100,
        accountType = None, accountNumber = None\<rparr>]
     = (Inl (Error_new ''Insufficient funds.''),
        [\<lparr>name = ''John Doe'', email = ''john@example.com'',
         password = ''password123'', balance = Finite 100,
         accountType = None, accountNumber = None\<rparr>])"
  using withdraw_positive_amount
    [where em = "''john@example.com''"
       and c = "[\<lparr>name = ''John Doe'', email = ''john@example.com'',
                 password = ''password123'', balance = Finite 100,
                 accountType = None, accountNumber = None\<rparr>]"
       and u = "\<lparr>name = ''John Doe'', email = ''john@example.com'',
                password = ''password123'', balance = Finite 100,
                accountType = None, accountNumber = None\<rparr>"
       and a = "Finite 50" and x = 100 and y = 50 and i = 100 and j = 50]
    withdraw_positive_amount
    [where em = "''john@example.com''"
       and c = "[\<lparr>name = ''John Doe'', email = ''john@example.com'',
                 password = ''password123'', balance = Finite 100,
                 accountType = None, accountNumber = None\<rparr>]"
       and u = "\<lparr>name = ''John Doe'', email = ''john@example.com'',
                password = ''password123'', balance = Finite 100,
                accountType = None, accountNumber = None\<rparr>"
       and a = "Finite 150"]
  by (simp add: withdraw_def coll_findOne_def inc_balance_def Let_def
        round_double_numeral is_double_numeral)

text \<open>
  C4 as the specification words it does not hold, for the same reason: on a balance
  of 9007199254740992 a deposit of 1 succeeds and returns the balance
  9007199254740992; the exact sum is not a double and rounds back.
\<close>

theorem deposit_exact_counterexample:
  "js_less (Finite 0) (Finite 1)
   \<and> deposit ''john@example.com'' (Finite 1)
       [\<lparr>name = ''John Doe'', email = ''john@example.com'',
        password = ''password123'', balance = Finite 9007199254740992,
        accountType = None, accountNumber = None\<rparr>]
     = (Inr (Some \<lparr>name = ''John Doe'', email = ''john@example.com'',
               password = ''password123'', balance = Finite 9007199254740992,
               accountType = None, accountNumber = None\<rparr>),
        [\<lparr>name = ''John Doe'', email = ''john@example.com'',
         password = ''password123'', balance = Finite 9007199254740992,
         accountType = None, accountNumber = None\<rparr>])"
  by (simp add: deposit_def inc_balance_def round_above_2_53)

text \<open>
  C4, amended: for an amount \<open>a > 0\<close>: when an account with the address exists
  (\<open>u\<close> its first document), \<^verbatim>\<open>deposit\<close> returns \<open>u\<close> with its balance replaced
  by the double nearest to \<open>balance u + a\<close>, and that is the record now stored in
  \<open>u\<close>'s place, every other document untouched; the balance goes up by exactly
  \<open>a\<close> whenever the exact sum is a double, as it is for integers whose sum has a
  magnitude of at most \<open>2\<^sup>5\<^sup>3\<close>; when no account exists it throws
  \<^verbatim>\<open>User not found.\<close> and the collection is unchanged.
\<close>

theorem deposit_positive_amount:
  assumes "js_less (Finite 0) a"
  shows "(coll_findOne em c = None \<longrightarrow>
           deposit em a c = (Inl (Error_new ''User not found.''), c))
       \<and> (coll_findOne em c = Some u \<longrightarrow>
           (\<exists>pre post. c = pre @ u # post \<and> coll_findOne em pre = None \<and>
              deposit em a c =
                (Inr (Some (u\<lparr>balance := js_add (balance u) a\<rparr>)),
                 pre @ u\<lparr>balance := js_add (balance u) a\<rparr> # post)))
       \<and> (coll_findOne em c = Some u \<and> balance u = Finite x \<and> a = Finite y \<and>
          is_double (x + y) \<longrightarrow>
           (\<exists>pre post. c = pre @ u # post \<and> coll_findOne em pre = None \<and>
              deposit em a c =
                (Inr (Some (u\<lparr>balance := Finite (x + y)\<rparr>)),
                 pre @ u\<lparr>balance := Finite (x + y)\<rparr> # post)))
       \<and> (coll_findOne em c = Some u \<and> balance u = Finite (of_int i) \<and>
          a = Finite (of_int j) \<and> \<bar>i + j\<bar> \<le> 2 ^ 53 \<longrightarrow>
           (\<exists>pre post. c = pre @ u # post \<and> coll_findOne em pre = None \<and>
              deposit em a c =
                (Inr (Some (u\<lparr>balance := Finite (of_int (i + j))\<rparr>)),
                 pre @ u\<lparr>balance := Finite (of_int (i + j))\<rparr> # post)))"
proof -
  from assms have pos: "\<not> js_le a (Finite 0)" by (rule positive_not_le_zero)
  have absent: "coll_findOne em c = None \<longrightarrow>
      deposit em a c = (Inl (Error_new ''User not found.''), c)"
    using pos by (simp add: deposit_def findOneAndUpdate_absent)
  have general: "\<exists>pre post. c = pre @ u # post \<and> coll_findOne em pre = None \<and>
      deposit em a c =
        (Inr (Some (u\<lparr>balance := js_add (balance u) a\<rparr>)),
         pre @ u\<lparr>balance := js_add (balance u) a\<rparr> # post)"
    if found: "coll_findOne em c = Some u"
  proof -
    from findOneAndUpdate_present [OF found, of "inc_balance a"]
    obtain pre post where h: "c = pre @ u # post" "coll_findOne em pre = None"
      "findOneAndUpdate em (inc_balance a) c =
         (Some (inc_balance a u), pre @ inc_balance a u # post)"
      by blast
    have "inc_balance a u = u\<lparr>balance := js_add (balance u) a\<rparr>"
      by (simp add: inc_balance_def)
    with h(3) pos have "deposit em a c =
        (Inr (Some (u\<lparr>balance := js_add (balance u) a\<rparr>)),
         pre @ u\<lparr>balance := js_add (balance u) a\<rparr> # post)"
      by (simp add: deposit_def)
    with h(1,2) show ?thesis by blast
  qed
  have exact: "coll_findOne em c = Some u \<and> balance u = Finite x \<and> a = Finite y \<and>
      is_double (x + y) \<longrightarrow>
      (\<exists>pre post. c = pre @ u # post \<and> coll_findOne em pre = None \<and>
         deposit em a c =
           (Inr (Some (u\<lparr>balance := Finite (x + y)\<rparr>)),
            pre @ u\<lparr>balance := Finite (x + y)\<rparr> # post))" for x y
  proof
    assume p: "coll_findOne em c = Some u \<and> balance u = Finite x \<and> a = Finite y \<and>
      is_double (x + y)"
    then have found: "coll_findOne em c = Some u" by blast
    from p have "js_add (balance u) a = Finite (x + y)" by (simp add: round_double_exact)
    with general [OF found] show "\<exists>pre post. c = pre @ u # post \<and> coll_findOne em pre = None \<and>
         deposit em a c =
           (Inr (Some (u\<lparr>balance := Finite (x + y)\<rparr>)),
            pre @ u\<lparr>balance := Finite (x + y)\<rparr> # post)"
      by simp
  qed
  have integers: "coll_findOne em c = Some u \<and> balance u = Finite (of_int i) \<and>
      a = Finite (of_int j) \<and> \<bar>i + j\<bar> \<le> 2 ^ 53 \<longrightarrow>
      (\<exists>pre post. c = pre @ u # post \<and> coll_findOne em pre = None \<and>
         deposit em a c =
           (Inr (Some (u\<lparr>balance := Finite (of_int (i + j))\<rparr>)),
            pre @ u\<lparr>balance := Finite (of_int (i + j))\<rparr> # post))"
  proof
    assume p: "coll_findOne em c = Some u \<and> balance u = Finite (of_int i) \<and>
      a = Finite (of_int j) \<and> \<bar>i + j\<bar> \<le> 2 ^ 53"
    then have "\<bar>i + j\<bar> \<le> 2 ^ 53" by simp
    then have "is_double (of_int (i + j))" by (rule is_double_of_int)
    then have "is_double (of_int i + of_int j)" by simp
    with p have "coll_findOne em c = Some u \<and> balance u = Finite (of_int i) \<and>
        a = Finite (of_int j) \<and> is_double (of_int i + of_int j)"
      by blast
    with exact [of "of_int i" "of_int j"]
    have "\<exists>pre post. c = pre @ u # post \<and> coll_findOne em pre = None \<and>
         deposit em a c =
           (Inr (Some (u\<lparr>balance := Finite (of_int i + of_int j)\<rparr>)),
            pre @ u\<lparr>balance := Finite (of_int i + of_int j)\<rparr> # post)"
      by blast
    then show "\<exists>pre post. c = pre @ u # post \<and> coll_findOne em pre = None \<and>
         deposit em a c =
           (Inr (Some (u\<lparr>balance := Finite (of_int (i + j))\<rparr>)),
            pre @ u\<lparr>balance := Finite (of_int (i + j))\<rparr> # post)"
      by simp
  qed
  from absent general exact integers show ?thesis by blast
qed

theorem deposit_positive_amount_witness:
  "js_less (Finite 0) (Finite 100)
   \<and> coll_findOne ''john@example.com''
       [\<lparr>name = ''John Doe'', email = ''john@example.com'',
        password = ''password123'', balance = Finite 0,
        accountType = None, accountNumber = None\<rparr>]
     = Some \<lparr>name = ''John Doe'', email = ''john@example.com'',
           password = ''password123'', balance = Finite 0,
           accountType = None, accountNumber = None\<rparr>
   \<and> coll_findOne ''jane@example.com''
       [\<lparr>name = ''John Doe'', email = ''john@example.com'',
        password = ''password123'', balance = Finite 0,
        accountType = None, accountNumber = None\<rparr>]
     = None
   \<and> is_double (0 + 100) \<and> \<bar>0 + 100 :: int\<bar> \<le> 2 ^ 53
   \<and> deposit ''john@example.com'' (Finite 100)
       [\<lparr>name = ''John Doe'', email = ''john@example.com'',
        password = ''password123'', balance = Finite 0,
        accountType = None, accountNumber = None\<rparr>]
     = (Inr (Some \<lparr>name = ''John Doe'', email = ''john@example.com'',
               password = ''password123'', balance = Finite 100,
               accountType = None, accountNumber = None\<rparr>),
        [\<lparr>name = ''John Doe'', email = ''john@example.com'',
         password = ''password123'', balance = Finite 100,
         accountType = None, accountNumber = None\<rparr>])
   \<and> deposit ''jane@example.com'' (Finite 100)
       [\<lparr>name = ''John Doe'', email = ''john@example.com'',
        password = ''password123'', balance = Finite 0,
        accountType = None, accountNumber = None\<rparr>]
     = (Inl (Error_new ''User not found.''),
        [\<lparr>name = ''John Doe'', email = ''john@example.com'',
         password = ''password123'', balance = Finite 0,
         accountType = None, accountNumber = None\<rparr>])"
  using deposit_positive_amount
    [where a = "Finite 100" and em = "''john@example.com''"
       and c = "[\<lparr>name = ''John Doe'', email = ''john@example.com'',
                 password = ''password123'', balance = Finite 0,
                 accountType = None, accountNumber = None\<rparr>]"
       and u = "\<lparr>name = ''John Doe'', email = ''john@example.com'',
                password = ''password123'', balance = Finite 0,
                accountType = None, accountNumber = None\<rparr>"
       and x = 0 and y = 100 and i = 0 and j = 100]
    deposit_positive_amount
    [where a = "Finite 100" and em = "''jane@example.com''"
       and c = "[\<lparr>name = ''John Doe'', email = ''john@example.com'',
                 password = ''password123'', balance = Finite 0,
                 accountType = None, accountNumber = None\<rparr>]"]
  by (simp add: deposit_def coll_findOne_def inc_balance_def
        round_double_numeral is_double_numeral)

section \<open>Looking up an address\<close>

text \<open>
  C5: when no document carries the address, \<^verbatim>\<open>findOne\<close> throws
  \<^verbatim>\<open>User not found.\<close> (the store's not-found fault) and \<^verbatim>\<open>find\<close> returns the
  empty array; neither changes the collection.
\<close>

theorem absent_email_lookup:
  assumes "list_all (\<lambda>u. email u \<noteq> em) c"
  shows "findOne em c = (Inl (Error_new ''User not found.''), c)
       \<and> find_users em c = (Inr [], c)"
proof -
  from assms have "coll_findOne em c = None" by (simp add: coll_findOne_None_iff)
  moreover from assms have "coll_find em c = []"
    by (induction c) (auto simp: coll_find_def)
  ultimately show ?thesis by (simp add: findOne_def find_users_def)
qed

theorem absent_email_lookup_witness:
  "list_all (\<lambda>u. email u \<noteq> ''jane@example.com'')
     [\<lparr>name = ''John Doe'', email = ''john@example.com'',
      password = ''password123'', balance = Finite 0,
      accountType = None, accountNumber = None\<rparr>]
   \<and> findOne ''jane@example.com''
       [\<lparr>name = ''John Doe'', email = ''john@example.com'',
        password = ''password123'', balance = Finite 0,
        accountType = None, accountNumber = None\<rparr>]
     = (Inl (Error_new ''User not found.''),
        [\<lparr>name = ''John Doe'', email = ''john@example.com'',
         password = ''password123'', balance = Finite 0,
         accountType = None, accountNumber = None\<rparr>])
   \<and> find_users ''jane@example.com''
       [\<lparr>name = ''John Doe'', email = ''john@example.com'',
        password = ''password123'', balance = Finite 0,
        accountType = None, accountNumber = None\<rparr>]
     = (Inr [],
        [\<lparr>name = ''John Doe'', email = ''john@example.com'',
         password = ''password123'', balance = Finite 0,
         accountType = None, accountNumber = None\<rparr>])"
  using absent_email_lookup
    [where em = "''jane@example.com''"
       and c = "[\<lparr>name = ''John Doe'', email = ''john@example.com'',
                 password = ''password123'', balance = Finite 0,
                 accountType = None, accountNumber = None\<rparr>]"]
  by simp

text \<open>
  C8: \<^verbatim>\<open>dal.findOne\<close> never returns \<^verbatim>\<open>null\<close>.  It either throws
  \<^verbatim>\<open>User not found.\<close>, and the \<^verbatim>\<open>/findOne\<close> handler answers 500 from its
  \<^verbatim>\<open>catch\<close> block, or it returns a document of the collection with the address,
  and the handler answers 200 with it.  The handler's 404 branch is never taken.
\<close>

theorem findOne_never_null:
  "fst (findOne em c) \<noteq> Inr None
   \<and> status (fst (route_findOne em c)) \<noteq> 404
   \<and> ((findOne em c = (Inl (Error_new ''User not found.''), c) \<and>
        route_findOne em c =
          (\<lparr>status = 500, json = Message ''Internal server error''\<rparr>, c))
      \<or> (\<exists>u. u \<in> set c \<and> email u = em \<and>
            findOne em c = (Inr (Some u), c) \<and>
            route_findOne em c = (\<lparr>status = 200, json = UserBody u\<rparr>, c)))"
  by (auto simp: findOne_def route_findOne_def coll_findOne_email coll_findOne_mem
      split: option.splits)

theorem findOne_never_null_witness:
  "route_findOne ''john@example.com''
     [\<lparr>name = ''John Doe'', email = ''john@example.com'',
      password = ''password123'', balance = Finite 0,
      accountType = None, accountNumber = None\<rparr>]
   = (\<lparr>status = 200,
       json = UserBody \<lparr>name = ''John Doe'', email = ''john@example.com'',
                       password = ''password123'', balance = Finite 0,
                       accountType = None, accountNumber = None\<rparr>\<rparr>,
      [\<lparr>name = ''John Doe'', email = ''john@example.com'',
       password = ''password123'', balance = Finite 0,
       accountType = None, accountNumber = None\<rparr>])
   \<and> status (fst (route_findOne ''jane@example.com'' [])) \<noteq> 404"
  using findOne_never_null
    [where em = "''john@example.com''"
       and c = "[\<lparr>name = ''John Doe'', email = ''john@example.com'',
                 password = ''password123'', balance = Finite 0,
                 accountType = None, accountNumber = None\<rparr>]"]
    findOne_never_null [where em = "''jane@example.com''" and c = "[]"]
  by (simp add: route_findOne_def findOne_def coll_findOne_def)

section \<open>The status codes of /deposit and /withdraw\<close>

text \<open>
  Whatever \<^verbatim>\<open>dal.deposit\<close> or \<^verbatim>\<open>dal.withdraw\<close> throws lands in the handler's
  \<^verbatim>\<open>catch\<close> block, which answers 500; and since neither ever returns
  \<^verbatim>\<open>null\<close>, the 404 branches of the two handlers are never taken.
\<close>

lemma route_deposit_status:
  "status (fst (route_deposit em a c)) =
     (case fst (deposit em a c) of Inl err \<Rightarrow> 500 | Inr v \<Rightarrow> 200)"
  by (cases "findOneAndUpdate em (inc_balance a) c")
     (auto simp: route_deposit_def deposit_def)

lemma route_withdraw_status:
  "status (fst (route_withdraw em a c)) =
     (case fst (withdraw em a c) of Inl err \<Rightarrow> 500 | Inr v \<Rightarrow> 200)"
proof (cases "coll_findOne em c")
  case None
  then show ?thesis by (simp add: route_withdraw_def withdraw_def Let_def)
next
  case (Some u)
  from findOneAndUpdate_present [OF Some, of "inc_balance (js_neg a)"]
  obtain pre post where
    "findOneAndUpdate em (inc_balance (js_neg a)) c =
       (Some (inc_balance (js_neg a) u), pre @ inc_balance (js_neg a) u # post)"
    by blast
  with Some show ?thesis by (simp add: route_withdraw_def withdraw_def Let_def)
qed

text \<open>
  C6 asks for 404 on a not-found fault and for a 4xx status on an invalid amount or
  insufficient funds.  A deposit to an address nobody holds, a withdrawal of 150 from
  an account holding 100, and a withdrawal of \<open>-5\<close> are all answered with
  500 \<^verbatim>\<open>Internal server error\<close>.
\<close>

theorem domain_faults_answered_500:
  "route_deposit ''jane@example.com'' (Finite 10) []
     = (\<lparr>status = 500, json = Message ''Internal server error''\<rparr>, [])
   \<and> route_withdraw ''john@example.com'' (Finite 150)
       [\<lparr>name = ''John Doe'', email = ''john@example.com'',
        password = ''password123'', balance = Finite 100,
        accountType = None, accountNumber = None\<rparr>]
     = (\<lparr>status = 500, json = Message ''Internal server error''\<rparr>,
        [\<lparr>name = ''John Doe'', email = ''john@example.com'',
         password = ''password123'', balance = Finite 100,
         accountType = None, accountNumber = None\<rparr>])
   \<and> route_withdraw ''john@example.com'' (Finite (- 5))
       [\<lparr>name = ''John Doe'', email = ''john@example.com'',
        password = ''password123'', balance = Finite 100,
        accountType = None, accountNumber = None\<rparr>]
     = (\<lparr>status = 500, json = Message ''Internal server error''\<rparr>,
        [\<lparr>name = ''John Doe'', email = ''john@example.com'',
         password = ''password123'', balance = Finite 100,
         accountType = None, accountNumber = None\<rparr>])"
  by (simp add: route_deposit_def route_withdraw_def deposit_def withdraw_def
        coll_findOne_def Let_def)

section \<open>The error-handling middleware\<close>

text \<open>
  An error without a \<^verbatim>\<open>statusCode\<close>, reaching the middleware before the headers
  are sent, is answered with status 500, and the body carries the error's own name
  and message.
\<close>

lemma errorHandler_unclassified:
  "statusCode err = None \<Longrightarrow>
   errorHandler err False development =
     Responded \<lparr>status = 500,
                json = ErrorBody (err_name err) (err_message err)
                         (if development then Some (stack err) else None)\<rparr>"
  by (simp add: errorHandler_def)

lemma errorHandler_headersSent: "errorHandler err True development = Forwarded err"
  by (simp add: errorHandler_def)

text \<open>
  C7 asks for a fixed message in the body of the 500 response, independent of the
  error.  For \<^verbatim>\<open>new Error('Some other error')\<close>, the error of the test-suite, the
  body is \<^verbatim>\<open>{ error: { name: 'Error', message: 'Some other error' } }\<close>; a different
  message gives a different body.
\<close>

theorem errorHandler_echoes_message:
  "errorHandler (Error_new ''Some other error'') False False
     = Responded \<lparr>status = 500, json = ErrorBody ''Error'' ''Some other error'' None\<rparr>
   \<and> errorHandler (Error_new ''connect ECONNREFUSED 10.0.0.5:27017'') False False
     = Responded \<lparr>status = 500,
                  json = ErrorBody ''Error'' ''connect ECONNREFUSED 10.0.0.5:27017'' None\<rparr>"
  by (simp add: errorHandler_def Error_new_def)

section \<open>The two persistence implementations\<close>

text \<open>
  A document that \<^verbatim>\<open>dal.create\<close> wrote has neither \<^verbatim>\<open>accountType\<close> nor
  \<^verbatim>\<open>accountNumber\<close>, so it never passes the schema.
\<close>

lemma schema_rejects_missing_account_fields:
  "accountType u = None \<Longrightarrow> schema_failures u \<noteq> []"
  by (simp add: schema_failures_def required_string_def)

text \<open>
  C9 as the specification words it does not hold.  The account that
  \<^verbatim>\<open>dal.create\<close> and a deposit of 100 leave exists, and 50 is positive and within
  the balance; \<^verbatim>\<open>dal.deposit\<close> and \<^verbatim>\<open>dal.withdraw\<close> return the balances 150 and
  50, while both methods of \<^verbatim>\<open>UserRepository\<close> throw out of \<^verbatim>\<open>save()\<close>, the two
  required account fields missing, and write nothing.
\<close>

theorem repositories_disagree_counterexample:
  "fst (deposit ''john@example.com'' (Finite 50)
          [\<lparr>name = ''John Doe'', email = ''john@example.com'',
           password = ''password123'', balance = Finite 100,
           accountType = None, accountNumber = None\<rparr>])
     = Inr (Some \<lparr>name = ''John Doe'', email = ''john@example.com'',
              password = ''password123'', balance = Finite 150,
              accountType = None, accountNumber = None\<rparr>)
   \<and> UserRepository_deposit ''john@example.com'' (Finite 50)
       [\<lparr>name = ''John Doe'', email = ''john@example.com'',
        password = ''password123'', balance = Finite 100,
        accountType = None, accountNumber = None\<rparr>]
     = (Inl (Rethrown ''Error depositing money: ''
               [Invalid ''accountType'' ''Account type is required'',
                Invalid ''accountNumber'' ''Account number is required'']),
        [\<lparr>name = ''John Doe'', email = ''john@example.com'',
         password = ''password123'', balance = Finite 100,
         accountType = None, accountNumber = None\<rparr>])
   \<and> fst (withdraw ''john@example.com'' (Finite 50)
          [\<lparr>name = ''John Doe'', email = ''john@example.com'',
           password = ''password123'', balance = Finite 100,
           accountType = None, accountNumber = None\<rparr>])
     = Inr (Some \<lparr>name = ''John Doe'', email = ''john@example.com'',
              password = ''password123'', balance = Finite 50,
              accountType = None, accountNumber = None\<rparr>)
   \<and> UserRepository_withdraw ''john@example.com'' (Finite 50)
       [\<lparr>name = ''John Doe'', email = ''john@example.com'',
        password = ''password123'', balance = Finite 100,
        accountType = None, accountNumber = None\<rparr>]
     = (Inl (Rethrown ''Error withdrawing money: ''
               [Invalid ''accountType'' ''Account type is required'',
                Invalid ''accountNumber'' ''Account number is required'']),
        [\<lparr>name = ''John Doe'', email = ''john@example.com'',
         password = ''password123'', balance = Finite 100,
         accountType = None, accountNumber = None\<rparr>])"
  by (simp add: deposit_def withdraw_def UserRepository_deposit_def
        UserRepository_withdraw_def save_def schema_failures_def required_string_def
        coll_findOne_def inc_balance_def line_terminator_def Let_def
        round_double_numeral)

text \<open>
  C9, amended: for an existing account (\<open>u\<close> its first document) and an amount
  \<open>a > 0\<close>, and for \<^verbatim>\<open>withdraw\<close> \<open>a \<le> balance u\<close>, where the document with its
  new balance passes the schema of \<^verbatim>\<open>models/user.js\<close> (it carries
  \<^verbatim>\<open>accountType\<close> and \<^verbatim>\<open>accountNumber\<close>, among the rest): \<^verbatim>\<open>dal.deposit\<close> and
  \<^verbatim>\<open>UserRepository.deposit\<close> both yield the balance that is the double nearest to
  \<open>balance u + a\<close>, \<^verbatim>\<open>dal.withdraw\<close> and \<^verbatim>\<open>UserRepository.withdraw\<close> both
  yield the double nearest to \<open>balance u - a\<close>, and in each pair the two leave the
  same collection behind.
\<close>

theorem repositories_agree:
  assumes "coll_findOne em c = Some u" and "js_less (Finite 0) a"
  shows "(schema_failures (u\<lparr>balance := js_add (balance u) a\<rparr>) = [] \<longrightarrow>
           (\<exists>c'. deposit em a c =
                   (Inr (Some (u\<lparr>balance := js_add (balance u) a\<rparr>)), c') \<and>
                 UserRepository_deposit em a c =
                   (Inr (Some (js_add (balance u) a)), c')))
       \<and> (js_le a (balance u) \<and>
          schema_failures (u\<lparr>balance := js_sub (balance u) a\<rparr>) = [] \<longrightarrow>
           (\<exists>c'. withdraw em a c =
                   (Inr (Some (u\<lparr>balance := js_sub (balance u) a\<rparr>)), c') \<and>
                 UserRepository_withdraw em a c =
                   (Inr (Some (js_sub (balance u) a)), c')))"
proof -
  from assms(2) have pos: "\<not> js_le a (Finite 0)" by (rule positive_not_le_zero)
  have eq: "findOneAndUpdate em (\<lambda>_. upd u) c = findOneAndUpdate em upd c" for upd
    using assms(1) by (rule findOneAndUpdate_const)
  have d: "inc_balance a u = u\<lparr>balance := js_add (balance u) a\<rparr>"
    and w: "inc_balance (js_neg a) u = u\<lparr>balance := js_sub (balance u) a\<rparr>"
    by (simp_all add: inc_balance_def js_sub_add_neg)
  from findOneAndUpdate_present [OF assms(1), of "inc_balance a"] d
  have fd: "fst (findOneAndUpdate em (inc_balance a) c) =
              Some (u\<lparr>balance := js_add (balance u) a\<rparr>)"
    by auto
  from findOneAndUpdate_present [OF assms(1), of "inc_balance (js_neg a)"] w
  have fw: "fst (findOneAndUpdate em (inc_balance (js_neg a)) c) =
              Some (u\<lparr>balance := js_sub (balance u) a\<rparr>)"
    by auto
  have "schema_failures (u\<lparr>balance := js_add (balance u) a\<rparr>) = [] \<longrightarrow>
           (\<exists>c'. deposit em a c =
                   (Inr (Some (u\<lparr>balance := js_add (balance u) a\<rparr>)), c') \<and>
                 UserRepository_deposit em a c =
                   (Inr (Some (js_add (balance u) a)), c'))"
    using assms(1) pos fd eq [of "inc_balance a"] d
    by (auto simp: deposit_def UserRepository_deposit_def save_def split: prod.splits)
  moreover have "js_le a (balance u) \<and>
          schema_failures (u\<lparr>balance := js_sub (balance u) a\<rparr>) = [] \<longrightarrow>
           (\<exists>c'. withdraw em a c =
                   (Inr (Some (u\<lparr>balance := js_sub (balance u) a\<rparr>)), c') \<and>
                 UserRepository_withdraw em a c =
                   (Inr (Some (js_sub (balance u) a)), c'))"
  proof
    assume p: "js_le a (balance u) \<and>
          schema_failures (u\<lparr>balance := js_sub (balance u) a\<rparr>) = []"
    then have "js_le a (balance u)" by blast
    then have "\<not> js_less (balance u) a" by (rule js_le_not_less)
    moreover from p have "schema_failures (u\<lparr>balance := js_sub (balance u) a\<rparr>) = []"
      by blast
    ultimately show "\<exists>c'. withdraw em a c =
                   (Inr (Some (u\<lparr>balance := js_sub (balance u) a\<rparr>)), c') \<and>
                 UserRepository_withdraw em a c =
                   (Inr (Some (js_sub (balance u) a)), c')"
      using assms(1) pos fw eq [of "inc_balance (js_neg a)"] w
      by (auto simp: withdraw_def UserRepository_withdraw_def save_def Let_def
          split: prod.splits)
  qed
  ultimately show ?thesis by blast
qed

theorem repositories_agree_witness:
  "coll_findOne ''john@example.com''
     [\<lparr>name = ''John Doe'', email = ''john@example.com'',
      password = ''password123'', balance = Finite 100,
      accountType = Some ''savings'', accountNumber = Some ''0001''\<rparr>]
   = Some \<lparr>name = ''John Doe'', email = ''john@example.com'',
         password = ''password123'', balance = Finite 100,
         accountType = Some ''savings'', accountNumber = Some ''0001''\<rparr>
   \<and> js_less (Finite 0) (Finite 50) \<and> js_le (Finite 50) (Finite 100)
   \<and> schema_failures
       \<lparr>name = ''John Doe'', email = ''john@example.com'',
       password = ''password123'', balance = Finite 150,
       accountType = Some ''savings'', accountNumber = Some ''0001''\<rparr> = []
   \<and> schema_failures
       \<lparr>name = ''John Doe'', email = ''john@example.com'',
       password = ''password123'', balance = Finite 50,
       accountType = Some ''savings'', accountNumber = Some ''0001''\<rparr> = []
   \<and> deposit ''john@example.com'' (Finite 50)
       [\<lparr>name = ''John Doe'', email = ''john@example.com'',
        password = ''password123'', balance = Finite 100,
        accountType = Some ''savings'', accountNumber = Some ''0001''\<rparr>]
     = (Inr (Some \<lparr>name = ''John Doe'', email = ''john@example.com'',
               password = ''password123'', balance = Finite 150,
               accountType = Some ''savings'', accountNumber = Some ''0001''\<rparr>),
        [\<lparr>name = ''John Doe'', email = ''john@example.com'',
         password = ''password123'', balance = Finite 150,
         accountType = Some ''savings'', accountNumber = Some ''0001''\<rparr>])
   \<and> UserRepository_deposit ''john@example.com'' (Finite 50)
       [\<lparr>name = ''John Doe'', email = ''john@example.com'',
        password = ''password123'', balance = Finite 100,
        accountType = Some ''savings'', accountNumber = Some ''0001''\<rparr>]
     = (Inr (Some (Finite 150)),
        [\<lparr>name = ''John Doe'', email = ''john@example.com'',
         password = ''password123'', balance = Finite 150,
         accountType = Some ''savings'', accountNumber = Some ''0001''\<rparr>])
   \<and> withdraw ''john@example.com'' (Finite 50)
       [\<lparr>name = ''John Doe'', email = ''john@example.com'',
        password = ''password123'', balance = Finite 100,
        accountType = Some ''savings'', accountNumber = Some ''0001''\<rparr>]
     = (Inr (Some \<lparr>name = ''John Doe'', email = ''john@example.com'',
               password = ''password123'', balance = Finite 50,
               accountType = Some ''savings'', accountNumber = Some ''0001''\<rparr>),
        [\<lparr>name = ''John Doe'', email = ''john@example.com'',
         password = ''password123'', balance = Finite 50,
         accountType = Some ''savings'', accountNumber = Some ''0001''\<rparr>])
   \<and> UserRepository_withdraw ''john@example.com'' (Finite 50)
       [\<lparr>name = ''John Doe'', email = ''john@example.com'',
        password = ''password123'', balance = Finite 100,
        accountType = Some ''savings'', accountNumber = Some ''0001''\<rparr>]
     = (Inr (Some (Finite 50)),
        [\<lparr>name = ''John Doe'', email = ''john@example.com'',
         password = ''password123'', balance = Finite 50,
         accountType = Some ''savings'', accountNumber = Some ''0001''\<rparr>])"
  using repositories_agree
    [where em = "''john@example.com''"
       and c = "[\<lparr>name = ''John Doe'', email = ''john@example.com'',
                 password = ''password123'', balance = Finite 100,
                 accountType = Some ''savings'', accountNumber = Some ''0001''\<rparr>]"
       and u = "\<lparr>name = ''John Doe'', email = ''john@example.com'',
                password = ''password123'', balance = Finite 100,
                accountType = Some ''savings'', accountNumber = Some ''0001''\<rparr>"
       and a = "Finite 50"]
  by (simp add: deposit_def withdraw_def UserRepository_deposit_def
        UserRepository_withdraw_def save_def schema_failures_def required_string_def
        coll_findOne_def inc_balance_def line_terminator_def Let_def
        round_double_numeral)

section \<open>The frame of /update\<close>

text \<open>
  C10: for an existing account (\<open>u\<close> its first document), the \<^verbatim>\<open>/update\<close> handler,
  which calls \<^verbatim>\<open>dal.update\<close> with \<^verbatim>\<open>{ name, password }\<close> only, answers 200 with
  \<open>u\<close> carrying the new name and password and stores that record in \<open>u\<close>'s
  place; its \<^verbatim>\<open>email\<close> and \<^verbatim>\<open>balance\<close> are those of \<open>u\<close>, and no other
  document changes.
\<close>

theorem update_route_frame:
  assumes "coll_findOne em c = Some u"
  shows "\<exists>pre post. c = pre @ u # post \<and> coll_findOne em pre = None \<and>
           route_update em n p c =
             (\<lparr>status = 200,
               json = UpdatedBody ''User information updated successfully''
                        (u\<lparr>name := n, password := p\<rparr>)\<rparr>,
              pre @ u\<lparr>name := n, password := p\<rparr> # post)
         \<and> email (u\<lparr>name := n, password := p\<rparr>) = email u
         \<and> balance (u\<lparr>name := n, password := p\<rparr>) = balance u"
proof -
  let ?d = "\<lparr>set_name = Some n, set_email = None, set_password = Some p,
             set_balance = None, set_accountType = None, set_accountNumber = None\<rparr>"
  from findOneAndUpdate_present [OF assms, of "set_fields ?d"]
  obtain pre post where h: "c = pre @ u # post" "coll_findOne em pre = None"
    "findOneAndUpdate em (set_fields ?d) c =
       (Some (set_fields ?d u), pre @ set_fields ?d u # post)"
    by blast
  have "set_fields ?d u = u\<lparr>name := n, password := p\<rparr>" by (simp add: set_fields_def)
  with h show ?thesis by (auto simp: route_update_def update_def)
qed

theorem update_route_frame_witness:
  "coll_findOne ''john@example.com''
     [\<lparr>name = ''John Doe'', email = ''john@example.com'',
      password = ''password123'', balance = Finite 100,
      accountType = None, accountNumber = None\<rparr>]
   = Some \<lparr>name = ''John Doe'', email = ''john@example.com'',
         password = ''password123'', balance = Finite 100,
         accountType = None, accountNumber = None\<rparr>
   \<and> route_update ''john@example.com'' ''Johnny Doe'' ''secret''
       [\<lparr>name = ''John Doe'', email = ''john@example.com'',
        password = ''password123'', balance = Finite 100,
        accountType = None, accountNumber = None\<rparr>]
     = (\<lparr>status = 200,
         json = UpdatedBody ''User information updated successfully''
                  \<lparr>name = ''Johnny Doe'', email = ''john@example.com'',
                   password = ''secret'', balance = Finite 100,
                   accountType = None, accountNumber = None\<rparr>\<rparr>,
        [\<lparr>name = ''Johnny Doe'', email = ''john@example.com'',
         password = ''secret'', balance = Finite 100,
         accountType = None, accountNumber = None\<rparr>])"
  using update_route_frame
    [where em = "''john@example.com''"
       and c = "[\<lparr>name = ''John Doe'', email = ''john@example.com'',
                 password = ''password123'', balance = Finite 100,
                 accountType = None, accountNumber = None\<rparr>]"
       and u = "\<lparr>name = ''John Doe'', email = ''john@example.com'',
                password = ''password123'', balance = Finite 100,
                accountType = None, accountNumber = None\<rparr>"
       and n = "''Johnny Doe''" and p = "''secret''"]
  by (simp add: route_update_def update_def coll_findOne_def set_fields_def)

end
